theory Spec2Isabelle
  imports Complex_Main "HOL-Library.AList"
begin

section \<open>Values, errors and external collaborators\<close>

text \<open>
  The source file \<^verbatim>\<open>fmriprep/workflows/bold/resampling.py\<close> builds dataflow graphs: every
  \<^verbatim>\<open>init_*_wf\<close> function creates nodes (an interface plus the inputs set at construction)
  and connects output fields of nodes to input fields of other nodes. The embedding keeps
  that shape: a workflow is a list of named nodes and a list of connections, and running a
  node reads its wired inputs from a store of the results computed so far.

  Values are the Python values travelling along the connections. \<open>Undefined\<close> is the value
  of an input or output that was never set. \<open>Image\<close> is an image file, given by its voxel
  data (Python floats are idealised as reals).
\<close>

datatype error =
    ValueError | IndexError | KeyError | TypeError | AttributeError | RuntimeError
  | ImageFileError | NotReady | NoSuchNode

datatype val =
    Undefined
  | NoneV
  | StrV string
  | BoolV bool
  | IntV int
  | FloatV real
  | ListV "val list"
  | TupleV "val list"
  | DictV "(string \<times> val) list"
  | Image "real list"

type_synonym inputs = "(string \<times> val) list"

text \<open>
  The tools outside the repository (ANTs, FSL, Connectome Workbench, niworkflows
  interfaces) are black boxes: \<open>ext tool ins field\<close> is the value of output \<open>field\<close> of
  \<open>tool\<close> run on the inputs \<open>ins\<close>. Every theorem below holds for every \<open>ext\<close>.
\<close>

type_synonym ext = "string \<Rightarrow> inputs \<Rightarrow> string \<Rightarrow> val"

definition lookup :: "inputs \<Rightarrow> string \<Rightarrow> val" where
  "lookup ins f = (case map_of ins f of None \<Rightarrow> Undefined | Some v \<Rightarrow> v)"

fun collect :: "(error + 'a) list \<Rightarrow> error + 'a list" where
  "collect [] = Inr []"
| "collect (x # xs) =
     (case x of Inl e \<Rightarrow> Inl e
      | Inr v \<Rightarrow> (case collect xs of Inl e \<Rightarrow> Inl e | Inr vs \<Rightarrow> Inr (v # vs)))"

fun index_of :: "'a list \<Rightarrow> 'a \<Rightarrow> nat option" where
  "index_of [] k = None"
| "index_of (x # xs) k = (if x = k then Some 0 else map_option Suc (index_of xs k))"

section \<open>Interfaces\<close>

datatype iface =
    IdentityInterface "string list"
  | Merge nat
  | KeySelect "string list"
  | Function "string list" "string list" "val list \<Rightarrow> error + val"
  | MapNode iface string
  | Clip
  | Threshold
  | MultiImageMaths
  | External string "string list"

text \<open>
  \<open>External tool outs\<close> is an interface of a tool outside the repository, with the output
  fields the workflows read. \<open>MapNode iface f\<close> runs \<open>iface\<close> once per element of the input
  list \<open>f\<close> (every \<^verbatim>\<open>MapNode\<close> of the modelled workflows iterates over one field).
  \<open>Threshold\<close> and \<open>MultiImageMaths\<close> are the FSL interfaces of these names; their
  voxelwise operations are written out below.
\<close>

fun iface_outputs :: "iface \<Rightarrow> string list" where
  "iface_outputs (IdentityInterface fields) = fields"
| "iface_outputs (Merge n) = [''out'']"
| "iface_outputs (KeySelect fields) = fields @ [''key'', ''keys'']"
| "iface_outputs (Function in_names out_names fn) = out_names"
| "iface_outputs (MapNode iface f) = iface_outputs iface"
| "iface_outputs Clip = [''out_file'']"
| "iface_outputs Threshold = [''out_file'']"
| "iface_outputs MultiImageMaths = [''out_file'']"
| "iface_outputs (External tool outs) = outs"

text \<open>
  \<^verbatim>\<open>niu.Merge(n)\<close>: the defined inputs \<^verbatim>\<open>in1 .. inn\<close>, lists flattened one level
  (input names are written for \<open>n < 100\<close>; the workflows use at most four).
\<close>

definition digit :: "nat \<Rightarrow> char" where
  "digit d = ''0123456789'' ! d"

fun in_name :: "nat \<Rightarrow> string" where
  "in_name n = (if n < 10 then ''in'' @ [digit n] else ''in'' @ [digit (n div 10), digit (n mod 10)])"

fun merge_items :: "val \<Rightarrow> val list" where
  "merge_items Undefined = []"
| "merge_items (ListV xs) = xs"
| "merge_items v = [v]"

definition run_Merge :: "nat \<Rightarrow> inputs \<Rightarrow> val" where
  "run_Merge n ins = ListV (concat (map (\<lambda>i. merge_items (lookup ins (in_name (Suc i)))) [0..<n]))"

text \<open>
  \<^verbatim>\<open>niworkflows.interfaces.utility.KeySelect\<close>: \<^verbatim>\<open>keys\<close> must have no duplicates, \<^verbatim>\<open>key\<close> must
  be one of them, every selected field must be a non-empty list as long as \<^verbatim>\<open>keys\<close>; any
  violation is a \<^verbatim>\<open>ValueError\<close>. The output of a field is its element at the index of the
  key.
\<close>

fun select_field :: "nat \<Rightarrow> nat \<Rightarrow> inputs \<Rightarrow> string \<Rightarrow> error + (string \<times> val)" where
  "select_field n i ins f =
     (case lookup ins f of
        ListV xs \<Rightarrow> if xs = [] \<or> length xs \<noteq> n then Inl ValueError else Inr (f, xs ! i)
      | TupleV xs \<Rightarrow> if xs = [] \<or> length xs \<noteq> n then Inl ValueError else Inr (f, xs ! i)
      | _ \<Rightarrow> Inl ValueError)"

definition run_KeySelect :: "string list \<Rightarrow> inputs \<Rightarrow> error + inputs" where
  "run_KeySelect fields ins =
     (case lookup ins ''keys'' of
        ListV keys \<Rightarrow>
          if \<not> distinct keys then Inl ValueError
          else (case index_of keys (lookup ins ''key'') of
                  None \<Rightarrow> Inl ValueError
                | Some i \<Rightarrow>
                    (case collect (map (select_field (length keys) i ins) fields) of
                       Inl e \<Rightarrow> Inl e
                     | Inr outs \<Rightarrow>
                         Inr (outs @ [(''key'', lookup ins ''key''), (''keys'', ListV keys)])))
      | _ \<Rightarrow> Inl TypeError)"

text \<open>
  \<^verbatim>\<open>niu.Function\<close>: the Python function is called on the named inputs; with one output
  name the result is that output, with several the result is unpacked by position.
\<close>

definition run_Function ::
  "string list \<Rightarrow> string list \<Rightarrow> (val list \<Rightarrow> error + val) \<Rightarrow> inputs \<Rightarrow> error + inputs" where
  "run_Function in_names out_names fn ins =
     (case fn (map (lookup ins) in_names) of
        Inl e \<Rightarrow> Inl e
      | Inr r \<Rightarrow>
          if length out_names = 1 then Inr [(hd out_names, r)]
          else (case r of
                  TupleV rs \<Rightarrow> if length rs = length out_names then Inr (zip out_names rs)
                               else Inl RuntimeError
                | ListV rs \<Rightarrow> if length rs < length out_names then Inl IndexError
                              else Inr (zip out_names rs)
                | _ \<Rightarrow> Inl TypeError))"

subsection \<open>Python numbers and subscripts\<close>

fun py_float :: "val \<Rightarrow> real option" where
  "py_float (FloatV r) = Some r"
| "py_float (IntV i) = Some (real_of_int i)"
| "py_float (BoolV b) = Some (if b then 1 else 0)"
| "py_float v = None"

fun py_getitem :: "val \<Rightarrow> nat \<Rightarrow> error + val" where
  "py_getitem (ListV xs) i = (if i < length xs then Inr (xs ! i) else Inl IndexError)"
| "py_getitem (TupleV xs) i = (if i < length xs then Inr (xs ! i) else Inl IndexError)"
| "py_getitem (StrV s) i = (if i < length s then Inr (StrV [s ! i]) else Inl IndexError)"
| "py_getitem (DictV d) i = Inl KeyError"
| "py_getitem v i = Inl TypeError"

subsection \<open>The image interfaces\<close>

text \<open>
  Modelled from the spec: the interface \<^verbatim>\<open>Clip\<close> of \<^verbatim>\<open>fmriprep.interfaces.maths\<close> is not in
  the source file. The spec says of it: "clip negative values to zero post-interpolation";
  the workflows construct it as \<^verbatim>\<open>Clip(minimum=0)\<close>. Every voxel below the minimum becomes
  the minimum, every other voxel is kept.
\<close>

definition run_Clip :: "inputs \<Rightarrow> error + inputs" where
  "run_Clip ins =
     (case lookup ins ''in_file'' of
        Image d \<Rightarrow>
          (case py_float (lookup ins ''minimum'') of
             Some lo \<Rightarrow> Inr [(''out_file'', Image (map (\<lambda>x. max x lo) d))]
           | None \<Rightarrow> if lookup ins ''minimum'' = Undefined then Inr [(''out_file'', Image d)]
                     else Inl TypeError)
      | _ \<Rightarrow> Inl ImageFileError)"

text \<open>
  \<^verbatim>\<open>fsl.maths.Threshold\<close> runs \<^verbatim>\<open>fslmaths in -thr t out\<close> (direction \<^verbatim>\<open>below\<close>, the default:
  zero every voxel below \<open>t\<close>) or \<^verbatim>\<open>-uthr\<close> (direction \<^verbatim>\<open>above\<close>: zero every voxel above
  \<open>t\<close>). The threshold is taken as given; the interface prints it with ten decimals, a
  monotone rounding that is not modelled.
\<close>

definition run_Threshold :: "inputs \<Rightarrow> error + inputs" where
  "run_Threshold ins =
     (case lookup ins ''in_file'' of
        Image d \<Rightarrow>
          (case py_float (lookup ins ''thresh'') of
             None \<Rightarrow> Inl TypeError
           | Some t \<Rightarrow>
               if lookup ins ''direction'' = StrV ''above''
               then Inr [(''out_file'', Image (map (\<lambda>x. if t < x then 0 else x) d))]
               else Inr [(''out_file'', Image (map (\<lambda>x. if x < t then 0 else x) d))])
      | _ \<Rightarrow> Inl ImageFileError)"

text \<open>
  \<^verbatim>\<open>fsl.maths.MultiImageMaths\<close> runs \<^verbatim>\<open>fslmaths in <op_string % operand_files> out\<close>. The
  operations \<^verbatim>\<open>-bin\<close> (1 where the voxel is positive, else 0), \<^verbatim>\<open>-sub\<close> and \<^verbatim>\<open>-mul\<close> (by an
  image or a number) are computed voxelwise; an operation string with any other operation
  is left to the external tool.
\<close>

datatype fsl_arg = FileArg | NumArg real

datatype fsl_op = OpBin | OpSub fsl_arg | OpMul fsl_arg

fun split_words :: "string \<Rightarrow> string \<Rightarrow> string list" where
  "split_words [] cur = (if cur = [] then [] else [cur])"
| "split_words (c # cs) cur =
     (if c = CHR '' '' then (if cur = [] then split_words cs [] else cur # split_words cs [])
      else split_words cs (cur @ [c]))"

fun parse_nat :: "string \<Rightarrow> nat \<Rightarrow> nat option" where
  "parse_nat [] acc = Some acc"
| "parse_nat (c # cs) acc =
     (case index_of ''0123456789'' c of None \<Rightarrow> None | Some d \<Rightarrow> parse_nat cs (10 * acc + d))"

definition parse_int :: "string \<Rightarrow> int option" where
  "parse_int s =
     (case s of
        [] \<Rightarrow> None
      | c # cs \<Rightarrow> if c = CHR ''-'' then (if cs = [] then None
                                          else map_option (\<lambda>n. - int n) (parse_nat cs 0))
                  else map_option int (parse_nat s 0))"

definition parse_arg :: "string \<Rightarrow> fsl_arg option" where
  "parse_arg a = (if a = ''%s'' then Some FileArg
                  else map_option (\<lambda>i. NumArg (real_of_int i)) (parse_int a))"

fun parse_ops :: "string list \<Rightarrow> fsl_op list option" where
  "parse_ops [] = Some []"
| "parse_ops [t] = (if t = ''-bin'' then Some [OpBin] else None)"
| "parse_ops (t # a # ts) =
     (if t = ''-bin'' then map_option ((#) OpBin) (parse_ops (a # ts))
      else if t = ''-sub'' then
        (case parse_arg a of None \<Rightarrow> None
         | Some x \<Rightarrow> map_option ((#) (OpSub x)) (parse_ops ts))
      else if t = ''-mul'' then
        (case parse_arg a of None \<Rightarrow> None
         | Some x \<Rightarrow> map_option ((#) (OpMul x)) (parse_ops ts))
      else None)"

fun operand :: "fsl_arg \<Rightarrow> val list \<Rightarrow> nat \<Rightarrow> error + (real list \<times> val list)" where
  "operand (NumArg c) fs n = Inr (replicate n c, fs)"
| "operand FileArg [] n = Inl TypeError"
| "operand FileArg (Image y # fs) n = (if length y = n then Inr (y, fs) else Inl RuntimeError)"
| "operand FileArg (v # fs) n = Inl ImageFileError"

fun apply_ops :: "fsl_op list \<Rightarrow> val list \<Rightarrow> real list \<Rightarrow> error + real list" where
  "apply_ops [] fs d = Inr d"
| "apply_ops (OpBin # ops) fs d = apply_ops ops fs (map (\<lambda>x. if 0 < x then 1 else 0) d)"
| "apply_ops (OpSub a # ops) fs d =
     (case operand a fs (length d) of
        Inl e \<Rightarrow> Inl e
      | Inr (y, fs') \<Rightarrow> apply_ops ops fs' (map (\<lambda>(x, z). x - z) (zip d y)))"
| "apply_ops (OpMul a # ops) fs d =
     (case operand a fs (length d) of
        Inl e \<Rightarrow> Inl e
      | Inr (y, fs') \<Rightarrow> apply_ops ops fs' (map (\<lambda>(x, z). x * z) (zip d y)))"

definition run_MultiImageMaths :: "ext \<Rightarrow> inputs \<Rightarrow> error + inputs" where
  "run_MultiImageMaths ext ins =
     (case lookup ins ''op_string'' of
        StrV s \<Rightarrow>
          (case parse_ops (split_words s []) of
             None \<Rightarrow> Inr [(''out_file'', ext ''fsl.maths.MultiImageMaths'' ins ''out_file'')]
           | Some ops \<Rightarrow>
               (case lookup ins ''in_file'' of
                  Image d \<Rightarrow>
                    (case apply_ops ops (merge_items (lookup ins ''operand_files'')) d of
                       Inl e \<Rightarrow> Inl e
                     | Inr d' \<Rightarrow> Inr [(''out_file'', Image d')])
                | _ \<Rightarrow> Inl ImageFileError))
      | _ \<Rightarrow> Inl TypeError)"

subsection \<open>Running an interface\<close>

fun map_items :: "val \<Rightarrow> error + val list" where
  "map_items Undefined = Inl ValueError"
| "map_items (ListV xs) = Inr xs"
| "map_items v = Inr [v]"

fun run_iface :: "ext \<Rightarrow> iface \<Rightarrow> inputs \<Rightarrow> error + inputs" where
  "run_iface ext (IdentityInterface fields) ins = Inr (map (\<lambda>f. (f, lookup ins f)) fields)"
| "run_iface ext (Merge n) ins = Inr [(''out'', run_Merge n ins)]"
| "run_iface ext (KeySelect fields) ins = run_KeySelect fields ins"
| "run_iface ext (Function in_names out_names fn) ins = run_Function in_names out_names fn ins"
| "run_iface ext (MapNode iface f) ins =
     (case map_items (lookup ins f) of
        Inl e \<Rightarrow> Inl e
      | Inr xs \<Rightarrow>
          (case collect (map (\<lambda>x. run_iface ext iface ((f, x) # ins)) xs) of
             Inl e \<Rightarrow> Inl e
           | Inr outs \<Rightarrow>
               Inr (map (\<lambda>g. (g, ListV (map (\<lambda>out. lookup out g) outs)))
                      (iface_outputs iface))))"
| "run_iface ext Clip ins = run_Clip ins"
| "run_iface ext Threshold ins = run_Threshold ins"
| "run_iface ext MultiImageMaths ins = run_MultiImageMaths ext ins"
| "run_iface ext (External tool outs) ins = Inr (map (\<lambda>f. (f, ext tool ins f)) outs)"

section \<open>Workflows and their execution\<close>

text \<open>
  A connection \<^verbatim>\<open>(src, [(out, in)])\<close> of \<^verbatim>\<open>workflow.connect\<close> carries an output field to an
  input field; \<^verbatim>\<open>((out, fn), in)\<close> applies a function on the way. \<open>ExtFn\<close> is a function
  imported from outside the repository.
\<close>

datatype modifier = Direct | PyFn "val \<Rightarrow> error + val" | ExtFn string

datatype conn =
  Conn (src: string) (src_field: string) (via: modifier) (dst: string) (dst_field: string)

abbreviation C :: "string \<Rightarrow> string \<Rightarrow> string \<Rightarrow> string \<Rightarrow> conn" where
  "C s sf d df \<equiv> Conn s sf Direct d df"

text \<open>
  \<open>iterables\<close> lists \<^verbatim>\<open>node.iterables = [(field, values)]\<close> as (node, field, values);
  \<open>joins\<close> lists every \<^verbatim>\<open>JoinNode\<close> with its \<^verbatim>\<open>joinsource\<close>.
\<close>

record workflow =
  name :: string
  desc :: string
  nodes :: "(string \<times> iface \<times> inputs) list"
  conns :: "conn list"
  iterables :: "(string \<times> string \<times> val list) list"
  joins :: "(string \<times> string) list"

type_synonym store = "string \<times> string \<Rightarrow> val option"

fun apply_modifier :: "ext \<Rightarrow> modifier \<Rightarrow> val \<Rightarrow> error + val" where
  "apply_modifier ext Direct v = Inr v"
| "apply_modifier ext (PyFn fn) v = fn v"
| "apply_modifier ext (ExtFn fname) v = Inr (ext fname [(''arg'', v)] ''out'')"

definition read_conn :: "ext \<Rightarrow> store \<Rightarrow> conn \<Rightarrow> error + (string \<times> val)" where
  "read_conn ext st c =
     (case st (src c, src_field c) of
        None \<Rightarrow> Inl NotReady
      | Some v \<Rightarrow> (case apply_modifier ext (via c) v of
                     Inl e \<Rightarrow> Inl e
                   | Inr w \<Rightarrow> Inr (dst_field c, w)))"

definition incoming :: "workflow \<Rightarrow> string \<Rightarrow> conn list" where
  "incoming w n = filter (\<lambda>c. dst c = n) (conns w)"

definition node_inputs :: "ext \<Rightarrow> workflow \<Rightarrow> store \<Rightarrow> string \<Rightarrow> error + inputs" where
  "node_inputs ext w st n =
     (case map_of (nodes w) n of
        None \<Rightarrow> Inl NoSuchNode
      | Some (iface, static) \<Rightarrow>
          (case collect (map (read_conn ext st) (incoming w n)) of
             Inl e \<Rightarrow> Inl e
           | Inr wired \<Rightarrow> Inr (wired @ static)))"

fun record_outputs :: "string \<Rightarrow> inputs \<Rightarrow> store \<Rightarrow> store" where
  "record_outputs n [] st = st"
| "record_outputs n ((f, v) # outs) st = (record_outputs n outs st)((n, f) \<mapsto> v)"

definition exec_node :: "ext \<Rightarrow> workflow \<Rightarrow> string \<Rightarrow> store \<Rightarrow> error + store" where
  "exec_node ext w n st =
     (case map_of (nodes w) n of
        None \<Rightarrow> Inl NoSuchNode
      | Some (iface, static) \<Rightarrow>
          (case node_inputs ext w st n of
             Inl e \<Rightarrow> Inl e
           | Inr ins \<Rightarrow> (case run_iface ext iface ins of
                          Inl e \<Rightarrow> Inl e
                        | Inr outs \<Rightarrow> Inr (record_outputs n outs st))))"

fun exec_nodes :: "ext \<Rightarrow> workflow \<Rightarrow> string list \<Rightarrow> store \<Rightarrow> error + store" where
  "exec_nodes ext w [] st = Inr st"
| "exec_nodes ext w (n # ns) st =
     (case exec_node ext w n st of Inl e \<Rightarrow> Inl e | Inr st' \<Rightarrow> exec_nodes ext w ns st')"

text \<open>Setting \<^verbatim>\<open>workflow.inputs.<node>.<field> = value\<close> before the run.\<close>

definition set_inputs :: "string \<Rightarrow> inputs \<Rightarrow> workflow \<Rightarrow> workflow" where
  "set_inputs n ins w =
     w\<lparr>nodes := map (\<lambda>(m, iface, static). if m = n then (m, iface, ins @ static)
                                             else (m, iface, static)) (nodes w)\<rparr>"

subsection \<open>Iterables and join nodes\<close>

text \<open>
  The engine runs one branch of the graph per value of an iterable. A \<^verbatim>\<open>JoinNode\<close> has one
  input slot per branch, numbered by the position of the branch's value in the iterable;
  a branch fills its slot when it completes, and the join node runs once every slot is
  filled, on the lists of the slots taken in slot order. \<open>sched\<close> is the order in which the
  branches complete.
\<close>

definition run_branch :: "ext \<Rightarrow> workflow \<Rightarrow> string list \<Rightarrow> val \<Rightarrow> error + store" where
  "run_branch ext w order v =
     (case iterables w of
        [(s, f, vals)] \<Rightarrow> exec_nodes ext (set_inputs s [(f, v)] w) order Map.empty
      | _ \<Rightarrow> Inl ValueError)"

fun complete :: "(nat \<Rightarrow> error + store) \<Rightarrow> nat list \<Rightarrow> (nat \<Rightarrow> store option)
    \<Rightarrow> error + (nat \<Rightarrow> store option)" where
  "complete branch [] slots = Inr slots"
| "complete branch (i # sched) slots =
     (case branch i of Inl e \<Rightarrow> Inl e | Inr st \<Rightarrow> complete branch sched (slots(i \<mapsto> st)))"

definition read_slot :: "ext \<Rightarrow> (nat \<Rightarrow> store option) \<Rightarrow> conn \<Rightarrow> nat \<Rightarrow> error + val" where
  "read_slot ext slots c i =
     (case slots i of
        None \<Rightarrow> Inl NotReady
      | Some st \<Rightarrow> (case read_conn ext st c of Inl e \<Rightarrow> Inl e | Inr (f, v) \<Rightarrow> Inr v))"

definition join_field :: "ext \<Rightarrow> (nat \<Rightarrow> store option) \<Rightarrow> nat \<Rightarrow> conn \<Rightarrow> error + (string \<times> val)" where
  "join_field ext slots n c =
     (case collect (map (read_slot ext slots c) [0..<n]) of
        Inl e \<Rightarrow> Inl e
      | Inr vs \<Rightarrow> Inr (dst_field c, ListV vs))"

definition run_join :: "ext \<Rightarrow> workflow \<Rightarrow> string list \<Rightarrow> nat list \<Rightarrow> string \<Rightarrow> error + inputs" where
  "run_join ext w order sched j =
     (case iterables w of
        [(s, f, vals)] \<Rightarrow>
          (case complete (\<lambda>i. if i < length vals then run_branch ext w order (vals ! i)
                                else Inl IndexError) sched Map.empty of
             Inl e \<Rightarrow> Inl e
           | Inr slots \<Rightarrow>
               (case map_of (nodes w) j of
                  None \<Rightarrow> Inl NoSuchNode
                | Some (iface, static) \<Rightarrow>
                    (case collect (map (join_field ext slots (length vals)) (incoming w j)) of
                       Inl e \<Rightarrow> Inl e
                     | Inr ins \<Rightarrow> run_iface ext iface (ins @ static))))
      | _ \<Rightarrow> Inl ValueError)"

section \<open>\<^verbatim>\<open>init_goodvoxels_bold_mask_wf\<close>\<close>

text \<open>
  The nodes and connections are those of the source, in its order. Scheduling hints
  (\<^verbatim>\<open>mem_gb\<close>, \<^verbatim>\<open>n_procs\<close>, \<^verbatim>\<open>run_without_submitting\<close>, \<^verbatim>\<open>nohash\<close>) carry no data and are left
  out, here and in the other workflows. Python names starting with an underscore lose it.
\<close>

fun calc_upper_thr :: "val list \<Rightarrow> error + val" where
  "calc_upper_thr [in_stats] =
     (case py_getitem in_stats 0 of
        Inl e \<Rightarrow> Inl e
      | Inr a \<Rightarrow>
          (case py_getitem in_stats 1 of
             Inl e \<Rightarrow> Inl e
           | Inr b \<Rightarrow>
               (case (py_float a, py_float b) of
                  (Some x, Some y) \<Rightarrow> Inr (FloatV (x + (y * 0.5)))
                | _ \<Rightarrow> Inl TypeError)))"
| "calc_upper_thr args = Inl TypeError"

fun calc_lower_thr :: "val list \<Rightarrow> error + val" where
  "calc_lower_thr [in_stats] =
     (case py_getitem in_stats 1 of
        Inl e \<Rightarrow> Inl e
      | Inr b \<Rightarrow>
          (case py_getitem in_stats 0 of
             Inl e \<Rightarrow> Inl e
           | Inr a \<Rightarrow>
               (case (py_float b, py_float a) of
                  (Some y, Some x) \<Rightarrow> Inr (FloatV (y - (x * 0.5)))
                | _ \<Rightarrow> Inl TypeError)))"
| "calc_lower_thr args = Inl TypeError"

definition init_goodvoxels_bold_mask_wf :: workflow where
  "init_goodvoxels_bold_mask_wf =
     \<lparr>name = ''goodvoxels_bold_mask_wf'',
      desc = [],
      nodes = [
        (''inputnode'', IdentityInterface [''anat_ribbon'', ''bold_file''], []),
        (''outputnode'', IdentityInterface [''goodvoxels_mask'', ''goodvoxels_ribbon''], []),
        (''ribbon_boldsrc_xfm'', External ''ApplyTransforms'' [''output_image''],
           [(''interpolation'', StrV ''MultiLabel''), (''transforms'', StrV ''identity'')]),
        (''stdev_volume'', External ''fsl.maths.StdImage'' [''out_file''], [(''dimension'', StrV ''T'')]),
        (''mean_volume'', External ''fsl.maths.MeanImage'' [''out_file''], [(''dimension'', StrV ''T'')]),
        (''cov_volume'', External ''fsl.maths.BinaryMaths'' [''out_file''], [(''operation'', StrV ''div'')]),
        (''cov_ribbon'', External ''fsl.ApplyMask'' [''out_file''], []),
        (''cov_ribbon_mean'', External ''fsl.ImageStats'' [''out_stat''], [(''op_string'', StrV ''-M'')]),
        (''cov_ribbon_std'', External ''fsl.ImageStats'' [''out_stat''], [(''op_string'', StrV ''-S'')]),
        (''cov_ribbon_norm'', External ''fsl.maths.BinaryMaths'' [''out_file''], [(''operation'', StrV ''div'')]),
        (''smooth_norm'', External ''fsl.maths.MathsCommand'' [''out_file''], [(''args'', StrV ''-bin -s 5'')]),
        (''merge_smooth_norm'', Merge 1, []),
        (''cov_ribbon_norm_smooth'', MultiImageMaths, [(''op_string'', StrV ''-s 5 -div %s -dilD'')]),
        (''cov_norm'', External ''fsl.maths.BinaryMaths'' [''out_file''], [(''operation'', StrV ''div'')]),
        (''cov_norm_modulate'', External ''fsl.maths.BinaryMaths'' [''out_file''], [(''operation'', StrV ''div'')]),
        (''cov_norm_modulate_ribbon'', External ''fsl.ApplyMask'' [''out_file''], []),
        (''upper_thr_val'', Function [''in_stats''] [''upper_thresh''] calc_upper_thr, []),
        (''lower_thr_val'', Function [''in_stats''] [''lower_thresh''] calc_lower_thr, []),
        (''mod_ribbon_mean'', External ''fsl.ImageStats'' [''out_stat''], [(''op_string'', StrV ''-M'')]),
        (''mod_ribbon_std'', External ''fsl.ImageStats'' [''out_stat''], [(''op_string'', StrV ''-S'')]),
        (''merge_mod_ribbon_stats'', Merge 2, []),
        (''bin_mean_volume'', External ''fsl.maths.UnaryMaths'' [''out_file''], [(''operation'', StrV ''bin'')]),
        (''merge_goodvoxels_operands'', Merge 2, []),
        (''goodvoxels_thr'', Threshold, []),
        (''goodvoxels_mask'', MultiImageMaths, [(''op_string'', StrV ''-bin -sub %s -mul -1'')]),
        (''goodvoxels_ribbon_mask'', External ''fsl.ApplyMask'' [''out_file''], [])],
      conns = [
        C ''inputnode'' ''anat_ribbon'' ''ribbon_boldsrc_xfm'' ''input_image'',
        C ''inputnode'' ''bold_file'' ''stdev_volume'' ''in_file'',
        C ''inputnode'' ''bold_file'' ''mean_volume'' ''in_file'',
        C ''mean_volume'' ''out_file'' ''ribbon_boldsrc_xfm'' ''reference_image'',
        C ''stdev_volume'' ''out_file'' ''cov_volume'' ''in_file'',
        C ''mean_volume'' ''out_file'' ''cov_volume'' ''operand_file'',
        C ''cov_volume'' ''out_file'' ''cov_ribbon'' ''in_file'',
        C ''ribbon_boldsrc_xfm'' ''output_image'' ''cov_ribbon'' ''mask_file'',
        C ''cov_ribbon'' ''out_file'' ''cov_ribbon_mean'' ''in_file'',
        C ''cov_ribbon'' ''out_file'' ''cov_ribbon_std'' ''in_file'',
        C ''cov_ribbon'' ''out_file'' ''cov_ribbon_norm'' ''in_file'',
        C ''cov_ribbon_mean'' ''out_stat'' ''cov_ribbon_norm'' ''operand_value'',
        C ''cov_ribbon_norm'' ''out_file'' ''smooth_norm'' ''in_file'',
        C ''smooth_norm'' ''out_file'' ''merge_smooth_norm'' ''in1'',
        C ''cov_ribbon_norm'' ''out_file'' ''cov_ribbon_norm_smooth'' ''in_file'',
        C ''merge_smooth_norm'' ''out'' ''cov_ribbon_norm_smooth'' ''operand_files'',
        C ''cov_ribbon_mean'' ''out_stat'' ''cov_norm'' ''operand_value'',
        C ''cov_volume'' ''out_file'' ''cov_norm'' ''in_file'',
        C ''cov_norm'' ''out_file'' ''cov_norm_modulate'' ''in_file'',
        C ''cov_ribbon_norm_smooth'' ''out_file'' ''cov_norm_modulate'' ''operand_file'',
        C ''cov_norm_modulate'' ''out_file'' ''cov_norm_modulate_ribbon'' ''in_file'',
        C ''ribbon_boldsrc_xfm'' ''output_image'' ''cov_norm_modulate_ribbon'' ''mask_file'',
        C ''cov_norm_modulate_ribbon'' ''out_file'' ''mod_ribbon_mean'' ''in_file'',
        C ''cov_norm_modulate_ribbon'' ''out_file'' ''mod_ribbon_std'' ''in_file'',
        C ''mod_ribbon_mean'' ''out_stat'' ''merge_mod_ribbon_stats'' ''in1'',
        C ''mod_ribbon_std'' ''out_stat'' ''merge_mod_ribbon_stats'' ''in2'',
        C ''merge_mod_ribbon_stats'' ''out'' ''upper_thr_val'' ''in_stats'',
        C ''merge_mod_ribbon_stats'' ''out'' ''lower_thr_val'' ''in_stats'',
        C ''mean_volume'' ''out_file'' ''bin_mean_volume'' ''in_file'',
        C ''upper_thr_val'' ''upper_thresh'' ''goodvoxels_thr'' ''thresh'',
        C ''cov_norm_modulate'' ''out_file'' ''goodvoxels_thr'' ''in_file'',
        C ''bin_mean_volume'' ''out_file'' ''merge_goodvoxels_operands'' ''in1'',
        C ''goodvoxels_thr'' ''out_file'' ''goodvoxels_mask'' ''in_file'',
        C ''merge_goodvoxels_operands'' ''out'' ''goodvoxels_mask'' ''operand_files'',
        C ''goodvoxels_mask'' ''out_file'' ''goodvoxels_ribbon_mask'' ''in_file'',
        C ''ribbon_boldsrc_xfm'' ''output_image'' ''goodvoxels_ribbon_mask'' ''mask_file'',
        C ''goodvoxels_mask'' ''out_file'' ''outputnode'' ''goodvoxels_mask'',
        C ''goodvoxels_ribbon_mask'' ''out_file'' ''outputnode'' ''goodvoxels_ribbon''],
      iterables = [],
      joins = []\<rparr>"

text \<open>
  The last stage of the estimator, run on given results of its sources: the upper
  threshold, the modulated normalised COV volume and the binarised mean volume (the brain
  mask). \<open>goodvoxel\<close> is what \<^verbatim>\<open>-thr upper\<close> followed by \<^verbatim>\<open>-bin -sub brain -mul -1\<close> computes
  at one voxel.
\<close>

definition goodvoxels_tail :: "ext \<Rightarrow> real \<Rightarrow> real list \<Rightarrow> real list \<Rightarrow> error + store" where
  "goodvoxels_tail ext upper modcov brain =
     exec_nodes ext init_goodvoxels_bold_mask_wf
       [''goodvoxels_thr'', ''merge_goodvoxels_operands'', ''goodvoxels_mask'']
       [(''upper_thr_val'', ''upper_thresh'') \<mapsto> FloatV upper,
        (''cov_norm_modulate'', ''out_file'') \<mapsto> Image modcov,
        (''bin_mean_volume'', ''out_file'') \<mapsto> Image brain]"

definition goodvoxel :: "real \<Rightarrow> real \<Rightarrow> real \<Rightarrow> real" where
  "goodvoxel upper x b = ((if 0 < (if x < upper then 0 else x) then 1 else 0) - b) * (- 1)"

section \<open>Helper functions of the source\<close>

fun truthy :: "val \<Rightarrow> bool" where
  "truthy Undefined = False"
| "truthy NoneV = False"
| "truthy (StrV s) = (s \<noteq> [])"
| "truthy (BoolV b) = b"
| "truthy (IntV i) = (i \<noteq> 0)"
| "truthy (FloatV r) = (r \<noteq> 0)"
| "truthy (ListV xs) = (xs \<noteq> [])"
| "truthy (TupleV xs) = (xs \<noteq> [])"
| "truthy (DictV d) = (d \<noteq> [])"
| "truthy (Image d) = True"

definition dict_get :: "inputs \<Rightarrow> string \<Rightarrow> val \<Rightarrow> val" where
  "dict_get d k dflt = (case map_of d k of None \<Rightarrow> dflt | Some v \<Rightarrow> v)"

definition split_colon :: "string \<Rightarrow> string" where
  "split_colon s = takeWhile (\<lambda>c. c \<noteq> CHR '':'') s"

text \<open>\<^verbatim>\<open>_split_spec\<close>: \<^verbatim>\<open>space, spec = in_target\<close>, \<^verbatim>\<open>template = space.split(":")[0]\<close>.\<close>

fun unpack2 :: "val \<Rightarrow> error + (val \<times> val)" where
  "unpack2 (TupleV xs) = (case xs of [a, b] \<Rightarrow> Inr (a, b) | _ \<Rightarrow> Inl ValueError)"
| "unpack2 (ListV xs) = (case xs of [a, b] \<Rightarrow> Inr (a, b) | _ \<Rightarrow> Inl ValueError)"
| "unpack2 v = Inl TypeError"

fun split_spec :: "val list \<Rightarrow> error + val" where
  "split_spec [in_target] =
     (case unpack2 in_target of
        Inl e \<Rightarrow> Inl e
      | Inr (space, spec) \<Rightarrow>
          (case space of
             StrV s \<Rightarrow> Inr (TupleV [space, StrV (split_colon s), spec])
           | _ \<Rightarrow> Inl AttributeError))"
| "split_spec args = Inl TypeError"

text \<open>
  \<^verbatim>\<open>_select_template\<close>. \<^verbatim>\<open>get_template_specs\<close> belongs to niworkflows and is a parameter
  \<open>gts\<close>: called on the template name and the specification dictionary, it returns a pair
  (whose first component the source takes) or raises. \<open>sanitize\<close> is the line
  \<^verbatim>\<open>res = specs.pop("res", None) or specs.pop("resolution", None) or "native"\<close>, returning
  \<open>res\<close> and the dictionary after the pops.
\<close>

type_synonym template_specs = "string \<Rightarrow> inputs \<Rightarrow> error + (val \<times> val)"

definition sanitize :: "inputs \<Rightarrow> val \<times> inputs" where
  "sanitize specs =
     (if truthy (dict_get specs ''res'' NoneV)
      then (dict_get specs ''res'' NoneV, AList.delete ''res'' specs)
      else if truthy (dict_get (AList.delete ''res'' specs) ''resolution'' NoneV)
      then (dict_get (AList.delete ''res'' specs) ''resolution'' NoneV,
            AList.delete ''resolution'' (AList.delete ''res'' specs))
      else (StrV ''native'', AList.delete ''resolution'' (AList.delete ''res'' specs)))"

definition first_of :: "error + (val \<times> val) \<Rightarrow> error + val" where
  "first_of r = (case r of Inl e \<Rightarrow> Inl e | Inr out \<Rightarrow> Inr (fst out))"

fun select_template :: "template_specs \<Rightarrow> val list \<Rightarrow> error + val" where
  "select_template gts [template] =
     (case unpack2 template of
        Inl e \<Rightarrow> Inl e
      | Inr (StrV t, DictV specs0) \<Rightarrow>
          (let template = split_colon t;
               specs = AList.update ''suffix'' (dict_get specs0 ''suffix'' (StrV ''T1w'')) specs0;
               (res, specs) = sanitize specs
           in if res \<noteq> StrV ''native''
              then first_of (gts template (AList.update ''resolution'' res specs))
              else (case gts template (AList.update ''resolution'' (IntV 2) specs) of
                      Inr out \<Rightarrow> Inr (fst out)
                    | Inl e \<Rightarrow>
                        if e = RuntimeError
                        then first_of (gts template (AList.update ''resolution'' (IntV 1) specs))
                        else Inl e))
      | Inr other \<Rightarrow> Inl AttributeError)"
| "select_template gts args = Inl TypeError"

text \<open>\<^verbatim>\<open>_first\<close>, \<^verbatim>\<open>_aslist\<close> and \<^verbatim>\<open>_is_native\<close>.\<close>

definition first :: "val \<Rightarrow> error + val" where
  "first inlist = py_getitem inlist 0"

fun aslist :: "val \<Rightarrow> error + val" where
  "aslist (ListV xs) = Inr (ListV xs)"
| "aslist in_value = Inr (ListV [in_value])"

fun is_native :: "val \<Rightarrow> error + val" where
  "is_native (DictV d) =
     Inr (BoolV (dict_get d ''resolution'' NoneV = StrV ''native''
                 \<or> dict_get d ''res'' NoneV = StrV ''native''))"
| "is_native in_value = Inl AttributeError"

section \<open>\<^verbatim>\<open>init_bold_std_trans_wf\<close>\<close>

text \<open>
  \<^verbatim>\<open>spaces\<close> is a \<^verbatim>\<open>SpatialReferences\<close> object of niworkflows. The source reads
  \<^verbatim>\<open>spaces.cached.get_spaces(nonstandard=False, dim=(3,))\<close> (here \<open>cached_spaces\<close>) and, of
  every reference in \<^verbatim>\<open>spaces.references\<close>, the attributes \<^verbatim>\<open>fullname\<close>, \<^verbatim>\<open>spec\<close>,
  \<^verbatim>\<open>standard\<close> and \<^verbatim>\<open>dim\<close>.
\<close>

record reference =
  fullname :: string
  spec :: inputs
  standard :: bool
  dim :: nat

record spatial_references =
  cached_spaces :: "string list"
  references :: "reference list"

definition std_vol_references :: "spatial_references \<Rightarrow> val list" where
  "std_vol_references spaces =
     map (\<lambda>s. TupleV [StrV (fullname s), DictV (spec s)])
       (filter (\<lambda>s. standard s \<and> dim s = 3) (references spaces))"

fun join_str :: "string \<Rightarrow> string list \<Rightarrow> string" where
  "join_str sep [] = []"
| "join_str sep [x] = x"
| "join_str sep (x # y # ys) = x @ sep @ join_str sep (y # ys)"

definition std_desc :: "string list \<Rightarrow> string" where
  "std_desc output_references =
     (if length output_references = 1
      then ''The BOLD time-series were resampled into standard space,\<newline>generating a *preprocessed BOLD run in ''
           @ hd output_references @ '' space*.\<newline>''
      else if length output_references > 1
      then ''The BOLD time-series were resampled into several standard spaces,\<newline>correspondingly generating the following *spatially-normalized,\<newline>preprocessed BOLD runs*: ''
           @ join_str '', '' output_references @ ''.\<newline>''
      else [])"

definition output_names :: "bool \<Rightarrow> bool \<Rightarrow> string list" where
  "output_names freesurfer multiecho =
     [''bold_mask_std'', ''bold_std'', ''bold_std_ref'', ''spatial_reference'', ''template'']
     @ (if freesurfer then [''bold_aseg_std'', ''bold_aparc_std''] else [])
     @ (if multiecho then [''t2star_std''] else [])"

text \<open>
  \<^verbatim>\<open>gen_final_ref\<close> is the workflow \<^verbatim>\<open>init_bold_reference_wf\<close> of niworkflows, kept as one
  external node whose fields carry the names of its input and output nodes.
\<close>

definition init_bold_std_trans_wf ::
  "template_specs \<Rightarrow> bool \<Rightarrow> spatial_references \<Rightarrow> bool \<Rightarrow> bool \<Rightarrow> workflow" where
  "init_bold_std_trans_wf gts freesurfer spaces multiecho use_compression =
     \<lparr>name = ''bold_std_trans_wf'',
      desc = std_desc (cached_spaces spaces),
      nodes = [
        (''inputnode'', IdentityInterface
           [''anat2std_xfm'', ''bold_aparc'', ''bold_aseg'', ''bold_mask'', ''bold_split'', ''t2star'',
            ''fieldwarp'', ''hmc_xforms'', ''itk_bold_to_t1'', ''name_source'', ''templates''], []),
        (''iterablesource'', IdentityInterface [''std_target''], []),
        (''split_target'', Function [''in_target''] [''space'', ''template'', ''spec''] split_spec, []),
        (''select_std'', KeySelect [''anat2std_xfm''], []),
        (''select_tpl'', Function [''template''] [''out''] (select_template gts), []),
        (''gen_ref'', External ''GenerateSamplingReference'' [''out_file''], []),
        (''mask_std_tfm'', External ''ApplyTransforms'' [''output_image''],
           [(''interpolation'', StrV ''MultiLabel'')]),
        (''mask_merge_tfms'', Merge 2, []),
        (''merge_xforms'', Merge 4, []),
        (''bold_to_std_transform'', External ''MultiApplyTransforms'' [''out_files''],
           [(''interpolation'', StrV ''LanczosWindowedSinc''), (''float'', BoolV True),
            (''copy_dtype'', BoolV True)]),
        (''threshold'', MapNode Clip ''in_file'', [(''minimum'', IntV 0)]),
        (''merge'', External ''Merge'' [''out_file''], [(''compress'', BoolV use_compression)]),
        (''gen_final_ref'', External ''init_bold_reference_wf'' [''outputnode.ref_image''],
           [(''pre_mask'', BoolV True)]),
        (''poutputnode'', IdentityInterface (output_names freesurfer multiecho), [])]
        @ (if freesurfer then [
             (''aseg_std_tfm'', External ''ApplyTransforms'' [''output_image''],
                [(''interpolation'', StrV ''MultiLabel'')]),
             (''aparc_std_tfm'', External ''ApplyTransforms'' [''output_image''],
                [(''interpolation'', StrV ''MultiLabel'')])] else [])
        @ (if multiecho then [
             (''t2star_std_tfm'', External ''ApplyTransforms'' [''output_image''],
                [(''interpolation'', StrV ''LanczosWindowedSinc''), (''float'', BoolV True)])] else [])
        @ [(''outputnode'', IdentityInterface (output_names freesurfer multiecho), [])],
      conns = [
        C ''iterablesource'' ''std_target'' ''split_target'' ''in_target'',
        C ''iterablesource'' ''std_target'' ''select_tpl'' ''template'',
        C ''inputnode'' ''anat2std_xfm'' ''select_std'' ''anat2std_xfm'',
        C ''inputnode'' ''templates'' ''select_std'' ''keys'',
        C ''inputnode'' ''bold_mask'' ''mask_std_tfm'' ''input_image'',
        Conn ''inputnode'' ''bold_split'' (PyFn first) ''gen_ref'' ''moving_image'',
        C ''inputnode'' ''hmc_xforms'' ''merge_xforms'' ''in4'',
        C ''inputnode'' ''fieldwarp'' ''merge_xforms'' ''in3'',
        Conn ''inputnode'' ''itk_bold_to_t1'' (PyFn aslist) ''merge_xforms'' ''in2'',
        C ''inputnode'' ''name_source'' ''merge'' ''header_source'',
        Conn ''inputnode'' ''itk_bold_to_t1'' (PyFn aslist) ''mask_merge_tfms'' ''in2'',
        C ''inputnode'' ''bold_split'' ''bold_to_std_transform'' ''input_image'',
        C ''split_target'' ''space'' ''select_std'' ''key'',
        C ''select_std'' ''anat2std_xfm'' ''merge_xforms'' ''in1'',
        C ''select_std'' ''anat2std_xfm'' ''mask_merge_tfms'' ''in1'',
        Conn ''split_target'' ''spec'' (PyFn is_native) ''gen_ref'' ''keep_native'',
        C ''select_tpl'' ''out'' ''gen_ref'' ''fixed_image'',
        C ''merge_xforms'' ''out'' ''bold_to_std_transform'' ''transforms'',
        C ''gen_ref'' ''out_file'' ''bold_to_std_transform'' ''reference_image'',
        C ''gen_ref'' ''out_file'' ''mask_std_tfm'' ''reference_image'',
        C ''mask_merge_tfms'' ''out'' ''mask_std_tfm'' ''transforms'',
        C ''mask_std_tfm'' ''output_image'' ''gen_final_ref'' ''inputnode.bold_mask'',
        C ''bold_to_std_transform'' ''out_files'' ''threshold'' ''in_file'',
        C ''threshold'' ''out_file'' ''merge'' ''in_files'',
        C ''merge'' ''out_file'' ''gen_final_ref'' ''inputnode.bold_file'',
        Conn ''iterablesource'' ''std_target'' (ExtFn ''format_reference'') ''poutputnode'' ''spatial_reference'',
        C ''merge'' ''out_file'' ''poutputnode'' ''bold_std'',
        C ''gen_final_ref'' ''outputnode.ref_image'' ''poutputnode'' ''bold_std_ref'',
        C ''mask_std_tfm'' ''output_image'' ''poutputnode'' ''bold_mask_std'',
        C ''select_std'' ''key'' ''poutputnode'' ''template'']
        @ (if freesurfer then [
             C ''inputnode'' ''bold_aseg'' ''aseg_std_tfm'' ''input_image'',
             C ''inputnode'' ''bold_aparc'' ''aparc_std_tfm'' ''input_image'',
             C ''select_std'' ''anat2std_xfm'' ''aseg_std_tfm'' ''transforms'',
             C ''select_std'' ''anat2std_xfm'' ''aparc_std_tfm'' ''transforms'',
             C ''gen_ref'' ''out_file'' ''aseg_std_tfm'' ''reference_image'',
             C ''gen_ref'' ''out_file'' ''aparc_std_tfm'' ''reference_image'',
             C ''aseg_std_tfm'' ''output_image'' ''poutputnode'' ''bold_aseg_std'',
             C ''aparc_std_tfm'' ''output_image'' ''poutputnode'' ''bold_aparc_std''] else [])
        @ (if multiecho then [
             C ''inputnode'' ''t2star'' ''t2star_std_tfm'' ''input_image'',
             C ''select_std'' ''anat2std_xfm'' ''t2star_std_tfm'' ''transforms'',
             C ''gen_ref'' ''out_file'' ''t2star_std_tfm'' ''reference_image'',
             C ''t2star_std_tfm'' ''output_image'' ''poutputnode'' ''t2star_std''] else [])
        @ map (\<lambda>f. C ''poutputnode'' f ''outputnode'' f) (output_names freesurfer multiecho),
      iterables = [(''iterablesource'', ''std_target'', std_vol_references spaces)],
      joins = [(''outputnode'', ''iterablesource'')]\<rparr>"

text \<open>The nodes of one branch, every node after its sources; the join node comes last.\<close>

definition std_order :: "bool \<Rightarrow> bool \<Rightarrow> string list" where
  "std_order freesurfer multiecho =
     [''inputnode'', ''iterablesource'', ''split_target'', ''select_std'', ''merge_xforms'',
      ''mask_merge_tfms'', ''select_tpl'', ''gen_ref'', ''mask_std_tfm'', ''bold_to_std_transform'',
      ''threshold'', ''merge'', ''gen_final_ref'']
     @ (if freesurfer then [''aseg_std_tfm'', ''aparc_std_tfm''] else [])
     @ (if multiecho then [''t2star_std_tfm''] else [])
     @ [''poutputnode'']"

section \<open>\<^verbatim>\<open>init_bold_preproc_trans_wf\<close>\<close>

definition init_bold_preproc_trans_wf :: "bool \<Rightarrow> bool \<Rightarrow> string \<Rightarrow> workflow" where
  "init_bold_preproc_trans_wf use_compression use_fieldwarp interpolation =
     \<lparr>name = ''bold_preproc_trans_wf'',
      desc = ''The BOLD time-series (including slice-timing correction when applied)\<newline>were resampled onto their original, native space by applying\<newline>''
        @ (if use_fieldwarp
           then ''a single, composite transform to correct for head-motion and\<newline>susceptibility distortions''
           else ''the transforms to correct for head-motion'')
        @ ''.\<newline>These resampled BOLD time-series will be referred to as *preprocessed\<newline>BOLD in original space*, or just *preprocessed BOLD*.\<newline>'',
      nodes = [
        (''inputnode'', IdentityInterface [''name_source'', ''bold_file'', ''hmc_xforms'', ''fieldwarp''], []),
        (''outputnode'', IdentityInterface [''bold'', ''bold_ref'', ''bold_ref_brain''], []),
        (''merge_xforms'', Merge 2, []),
        (''bold_transform'', External ''MultiApplyTransforms'' [''out_files''],
           [(''interpolation'', StrV interpolation), (''copy_dtype'', BoolV True)]),
        (''threshold'', MapNode Clip ''in_file'', [(''minimum'', IntV 0)]),
        (''merge'', External ''Merge'' [''out_file''], [(''compress'', BoolV use_compression)])],
      conns = [
        C ''inputnode'' ''fieldwarp'' ''merge_xforms'' ''in1'',
        C ''inputnode'' ''hmc_xforms'' ''merge_xforms'' ''in2'',
        C ''inputnode'' ''bold_file'' ''bold_transform'' ''input_image'',
        Conn ''inputnode'' ''bold_file'' (PyFn first) ''bold_transform'' ''reference_image'',
        C ''inputnode'' ''name_source'' ''merge'' ''header_source'',
        C ''merge_xforms'' ''out'' ''bold_transform'' ''transforms'',
        C ''bold_transform'' ''out_files'' ''threshold'' ''in_file'',
        C ''threshold'' ''out_file'' ''merge'' ''in_files'',
        C ''merge'' ''out_file'' ''outputnode'' ''bold''],
      iterables = [],
      joins = []\<rparr>"

definition preproc_order :: "string list" where
  "preproc_order = [''inputnode'', ''merge_xforms'', ''bold_transform'', ''threshold'', ''merge'', ''outputnode'']"

section \<open>\<^verbatim>\<open>init_bold_grayords_wf\<close>\<close>

definition mni_density :: "string \<Rightarrow> string" where
  "mni_density grayord_density = (if grayord_density = ''91k'' then ''2'' else ''1'')"

definition init_bold_grayords_wf :: "string \<Rightarrow> real \<Rightarrow> workflow" where
  "init_bold_grayords_wf grayord_density repetition_time =
     \<lparr>name = ''bold_grayords_wf'',
      desc = ''*Grayordinates* files [@hcppipelines] containing '' @ grayord_density
        @ '' samples were also generated with surface data transformed directly to fsLR space and subcortical data transformed to ''
        @ mni_density grayord_density @ '' mm resolution MNI152NLin6Asym space.'',
      nodes = [
        (''inputnode'', IdentityInterface [''bold_std'', ''bold_fsLR'', ''spatial_reference''], []),
        (''outputnode'', IdentityInterface [''cifti_bold'', ''cifti_metadata''], []),
        (''select_std'', KeySelect [''bold_std''],
           [(''key'', StrV (''MNI152NLin6Asym_res-'' @ mni_density grayord_density))]),
        (''gen_cifti'', External ''GenerateCifti'' [''out_file'', ''out_metadata''],
           [(''TR'', FloatV repetition_time), (''grayordinates'', StrV grayord_density)])],
      conns = [
        C ''inputnode'' ''bold_std'' ''select_std'' ''bold_std'',
        C ''inputnode'' ''spatial_reference'' ''select_std'' ''keys'',
        C ''inputnode'' ''bold_fsLR'' ''gen_cifti'' ''surface_bolds'',
        C ''select_std'' ''bold_std'' ''gen_cifti'' ''bold_file'',
        C ''gen_cifti'' ''out_file'' ''outputnode'' ''cifti_bold'',
        C ''gen_cifti'' ''out_metadata'' ''outputnode'' ''cifti_metadata''],
      iterables = [],
      joins = []\<rparr>"

text \<open>An order in which the engine can run the nodes (every node after its sources).\<close>

definition grayords_order :: "string list" where
  "grayords_order = [''inputnode'', ''select_std'', ''gen_cifti'', ''outputnode'']"

text \<open>
  A template collaborator for examples: a template has an image at the resolutions \<open>rs\<close>
  and \<^verbatim>\<open>get_template_specs\<close> raises \<^verbatim>\<open>RuntimeError\<close> for any other request.
\<close>

definition available :: "int list \<Rightarrow> template_specs" where
  "available rs t specs =
     (case map_of specs ''resolution'' of
        Some (IntV r) \<Rightarrow>
          if r \<in> set rs then Inr (StrV (t @ ''_T1w.nii.gz''), DictV [(''resolution'', IntV r)])
          else Inl RuntimeError
      | _ \<Rightarrow> Inl RuntimeError)"

text \<open>
  The transform chain of one branch: the nodes up to \<^verbatim>\<open>merge_xforms\<close>, then the resampling
  node \<^verbatim>\<open>bold_to_std_transform\<close> once the sampling reference \<^verbatim>\<open>gen_ref\<close> has produced is
  available.
\<close>

definition std_chain_run :: "ext \<Rightarrow> workflow \<Rightarrow> val \<Rightarrow> error + store" where
  "std_chain_run ext w reference =
     (case exec_nodes ext w
             [''inputnode'', ''iterablesource'', ''split_target'', ''select_std'', ''merge_xforms'']
             Map.empty of
        Inl e \<Rightarrow> Inl e
      | Inr st \<Rightarrow> exec_nodes ext w [''bold_to_std_transform'']
                   (st((''gen_ref'', ''out_file'') \<mapsto> reference)))"

section \<open>\<^verbatim>\<open>init_bold_fsLR_resampling_wf\<close>\<close>

text \<open>
  A workflow used as a node of another one contributes its nodes under the names
  \<^verbatim>\<open><workflow>.<node>\<close>, as the connections \<^verbatim>\<open>"inputnode.bold_file"\<close> of the source address
  them.
\<close>

definition nested_nodes :: "workflow \<Rightarrow> (string \<times> iface \<times> inputs) list" where
  "nested_nodes w = map (\<lambda>(n, x). (name w @ ''.'' @ n, x)) (nodes w)"

definition nested_conns :: "workflow \<Rightarrow> conn list" where
  "nested_conns w =
     map (\<lambda>c. Conn (name w @ ''.'' @ src c) (src_field c) (via c) (name w @ ''.'' @ dst c) (dst_field c))
       (conns w)"

text \<open>
  \<open>tf_get\<close> is \<^verbatim>\<open>templateflow.api.get\<close> and \<open>atlases\<close> the directory
  \<^verbatim>\<open>smriprep_data.load_resource('atlases')\<close>. The function \<^verbatim>\<open>_select_surfaces\<close> sorts
  the file names it is given and picks the one of the hemisphere; nothing below depends on
  which file it picks, so the node \<^verbatim>\<open>select_surfaces\<close> is kept as an
  external function of its inputs with the seven outputs the node declares.
\<close>

definition fslr_density :: "string \<Rightarrow> string" where
  "fslr_density grayord_density = (if grayord_density = ''91k'' then ''32k'' else ''59k'')"

definition init_bold_fsLR_resampling_wf ::
  "(inputs \<Rightarrow> string list) \<Rightarrow> string \<Rightarrow> string \<Rightarrow> bool \<Rightarrow> workflow" where
  "init_bold_fsLR_resampling_wf tf_get atlases grayord_density estimate_goodvoxels =
     \<lparr>name = ''bold_fsLR_resampling_wf'',
      desc = ''The BOLD time-series were resampled onto the left/right-symmetric template\<newline>'' @ [CHR 0x22] @ ''fsLR'' @ [CHR 0x22]
        @ '' [@hcppipelines].\<newline>''
        @ (if estimate_goodvoxels
           then ''A '' @ [CHR 0x22] @ ''goodvoxels'' @ [CHR 0x22] @ '' mask was applied during volume-to-surface sampling in fsLR space,\<newline>excluding voxels whose time-series have a locally high coefficient of variation.\<newline>''
           else []),
      nodes = [
        (''inputnode'', IdentityInterface
           [''bold_file'', ''surfaces'', ''morphometrics'', ''sphere_reg_fsLR'', ''anat_ribbon''], []),
        (''itersource'', IdentityInterface [''hemi''], []),
        (''joinnode'', IdentityInterface [''bold_fsLR''], []),
        (''outputnode'', IdentityInterface [''bold_fsLR'', ''goodvoxels_mask''], []),
        (''select_surfaces'',
           External ''_select_surfaces''
             [''white'', ''pial'', ''midthickness'', ''thickness'', ''sphere_reg'', ''template_sphere'',
              ''template_roi''],
           [(''template_spheres'',
               ListV (map StrV (tf_get
                 [(''template'', StrV ''fsLR''), (''density'', StrV (fslr_density grayord_density)),
                  (''suffix'', StrV ''sphere''), (''space'', NoneV),
                  (''extension'', StrV ''.surf.gii'')]))),
            (''template_rois'',
               ListV [StrV (atlases @ ''/L.atlasroi.32k_fs_LR.shape.gii''),
                      StrV (atlases @ ''/R.atlasroi.32k_fs_LR.shape.gii'')])]),
        (''initial_roi'', External ''CreateROI'' [''roi_file''], []),
        (''fill_holes'', External ''MetricFillHoles'' [''out_file''], []),
        (''native_roi'', External ''MetricRemoveIslands'' [''out_file''], []),
        (''downsampled_midthickness'', External ''SurfaceResample'' [''surface_out''],
           [(''method'', StrV ''BARYCENTRIC'')]),
        (''volume_to_surface'', External ''VolumeToSurfaceMapping'' [''out_file''],
           [(''method'', StrV ''ribbon-constrained'')]),
        (''metric_dilate'', External ''MetricDilate'' [''out_file''],
           [(''distance'', IntV 10), (''nearest'', BoolV True)]),
        (''mask_native'', External ''MetricMask'' [''out_file''], []),
        (''resample_to_fsLR'', External ''MetricResample'' [''out_file''],
           [(''method'', StrV ''ADAP_BARY_AREA''), (''area_surfs'', BoolV True)]),
        (''mask_fsLR'', External ''MetricMask'' [''out_file''], [])]
        @ (if estimate_goodvoxels then nested_nodes init_goodvoxels_bold_mask_wf else []),
      conns = [
        C ''inputnode'' ''surfaces'' ''select_surfaces'' ''surfaces'',
        C ''inputnode'' ''morphometrics'' ''select_surfaces'' ''morphometrics'',
        C ''inputnode'' ''sphere_reg_fsLR'' ''select_surfaces'' ''spherical_registrations'',
        C ''itersource'' ''hemi'' ''select_surfaces'' ''hemi'',
        C ''itersource'' ''hemi'' ''initial_roi'' ''hemisphere'',
        C ''select_surfaces'' ''thickness'' ''initial_roi'' ''thickness_file'',
        C ''select_surfaces'' ''midthickness'' ''fill_holes'' ''surface_file'',
        C ''select_surfaces'' ''midthickness'' ''native_roi'' ''surface_file'',
        C ''initial_roi'' ''roi_file'' ''fill_holes'' ''metric_file'',
        C ''fill_holes'' ''out_file'' ''native_roi'' ''metric_file'',
        C ''select_surfaces'' ''midthickness'' ''downsampled_midthickness'' ''surface_in'',
        C ''select_surfaces'' ''sphere_reg'' ''downsampled_midthickness'' ''current_sphere'',
        C ''select_surfaces'' ''template_sphere'' ''downsampled_midthickness'' ''new_sphere'',
        C ''inputnode'' ''bold_file'' ''volume_to_surface'' ''volume_file'',
        C ''select_surfaces'' ''midthickness'' ''volume_to_surface'' ''surface_file'',
        C ''select_surfaces'' ''white'' ''volume_to_surface'' ''inner_surface'',
        C ''select_surfaces'' ''pial'' ''volume_to_surface'' ''outer_surface'',
        C ''select_surfaces'' ''midthickness'' ''metric_dilate'' ''surf_file'',
        C ''volume_to_surface'' ''out_file'' ''metric_dilate'' ''in_file'',
        C ''native_roi'' ''out_file'' ''mask_native'' ''mask'',
        C ''metric_dilate'' ''out_file'' ''mask_native'' ''in_file'',
        C ''select_surfaces'' ''sphere_reg'' ''resample_to_fsLR'' ''current_sphere'',
        C ''select_surfaces'' ''template_sphere'' ''resample_to_fsLR'' ''new_sphere'',
        C ''select_surfaces'' ''midthickness'' ''resample_to_fsLR'' ''current_area'',
        C ''downsampled_midthickness'' ''surface_out'' ''resample_to_fsLR'' ''new_area'',
        C ''native_roi'' ''out_file'' ''resample_to_fsLR'' ''roi_metric'',
        C ''mask_native'' ''out_file'' ''resample_to_fsLR'' ''in_file'',
        C ''select_surfaces'' ''template_roi'' ''mask_fsLR'' ''mask'',
        C ''resample_to_fsLR'' ''out_file'' ''mask_fsLR'' ''in_file'',
        C ''mask_fsLR'' ''out_file'' ''joinnode'' ''bold_fsLR'',
        C ''joinnode'' ''bold_fsLR'' ''outputnode'' ''bold_fsLR'']
        @ (if estimate_goodvoxels then
             nested_conns init_goodvoxels_bold_mask_wf @ [
               C ''inputnode'' ''bold_file'' ''goodvoxels_bold_mask_wf.inputnode'' ''bold_file'',
               C ''inputnode'' ''anat_ribbon'' ''goodvoxels_bold_mask_wf.inputnode'' ''anat_ribbon'',
               C ''goodvoxels_bold_mask_wf.outputnode'' ''goodvoxels_mask'' ''volume_to_surface'' ''volume_roi'',
               C ''goodvoxels_bold_mask_wf.outputnode'' ''goodvoxels_mask'' ''outputnode'' ''goodvoxels_mask'']
           else []),
      iterables = [(''itersource'', ''hemi'', [StrV ''L'', StrV ''R''])],
      joins = [(''joinnode'', ''itersource'')]\<rparr>"

text \<open>
  The surface stages of one hemisphere, from the native ROI to the masked template-space
  series, and a store holding what they read from the nodes before them: the hemisphere,
  the series, the seven selected surfaces and the goodvoxels mask (read only when
  \<^verbatim>\<open>estimate_goodvoxels\<close> is set).
\<close>

definition fslr_stages :: "string list" where
  "fslr_stages =
     [''initial_roi'', ''fill_holes'', ''native_roi'', ''downsampled_midthickness'',
      ''volume_to_surface'', ''metric_dilate'', ''mask_native'', ''resample_to_fsLR'', ''mask_fsLR'']"

definition fslr_sources :: "val \<Rightarrow> val \<Rightarrow> val \<Rightarrow> val \<Rightarrow> val \<Rightarrow> val \<Rightarrow> val \<Rightarrow> val \<Rightarrow> val \<Rightarrow> val
    \<Rightarrow> store" where
  "fslr_sources hemi bold white pial midthickness thickness sphere_reg template_sphere template_roi
       goodvoxels =
     [(''itersource'', ''hemi'') \<mapsto> hemi,
      (''inputnode'', ''bold_file'') \<mapsto> bold,
      (''select_surfaces'', ''white'') \<mapsto> white,
      (''select_surfaces'', ''pial'') \<mapsto> pial,
      (''select_surfaces'', ''midthickness'') \<mapsto> midthickness,
      (''select_surfaces'', ''thickness'') \<mapsto> thickness,
      (''select_surfaces'', ''sphere_reg'') \<mapsto> sphere_reg,
      (''select_surfaces'', ''template_sphere'') \<mapsto> template_sphere,
      (''select_surfaces'', ''template_roi'') \<mapsto> template_roi,
      (''goodvoxels_bold_mask_wf.outputnode'', ''goodvoxels_mask'') \<mapsto> goodvoxels]"

section \<open>Execution lemmas\<close>

lemma upt_2: "[0..<2] = [0, 1]"
  by (simp add: upt_rec)

lemma upt_4: "[0..<4] = [0, 1, 2, 3]"
  by (simp add: upt_rec)

lemma run_Merge_1: "run_Merge (Suc 0) ins = ListV (merge_items (lookup ins ''in1''))"
  by (simp add: run_Merge_def digit_def)

lemma run_Merge_2:
  "run_Merge 2 ins = ListV (merge_items (lookup ins ''in1'') @ merge_items (lookup ins ''in2''))"
  by (simp add: run_Merge_def digit_def upt_2)

lemma run_Merge_4:
  "run_Merge 4 ins = ListV (merge_items (lookup ins ''in1'') @ merge_items (lookup ins ''in2'')
     @ merge_items (lookup ins ''in3'') @ merge_items (lookup ins ''in4''))"
  by (simp add: run_Merge_def digit_def upt_4)

text \<open>
  Looking a node or its incoming connections up in a workflow, one list element at a time.
\<close>

lemma node_hit: "k = n \<Longrightarrow> map_of ((k, v) # ps) n = Some v"
  by simp

lemma node_miss: "k \<noteq> n \<Longrightarrow> map_of ps n = r \<Longrightarrow> map_of ((k, v) # ps) n = r"
  by simp

lemma conns_keep:
  "dst c = n \<Longrightarrow> filter (\<lambda>c. dst c = n) cs = r \<Longrightarrow> filter (\<lambda>c. dst c = n) (c # cs) = c # r"
  by simp

lemma conns_skip:
  "dst c \<noteq> n \<Longrightarrow> filter (\<lambda>c. dst c = n) cs = r \<Longrightarrow> filter (\<lambda>c. dst c = n) (c # cs) = r"
  by simp

lemma conns_done: "filter P [] = []"
  by simp

lemma exec_node_eval:
  "map_of (nodes w) n = Some (iface, static) \<Longrightarrow> incoming w n = cs \<Longrightarrow>
   exec_node ext w n st =
     (case collect (map (read_conn ext st) cs) of
        Inl e \<Rightarrow> Inl e
      | Inr wired \<Rightarrow>
          (case run_iface ext iface (wired @ static) of
             Inl e \<Rightarrow> Inl e
           | Inr outs \<Rightarrow> Inr (record_outputs n outs st)))"
  by (simp add: exec_node_def node_inputs_def split: sum.splits)

lemmas run_defs = read_conn_def run_Merge_1 run_Merge_2 run_Merge_4 lookup_def

lemmas exec_defs = exec_node_def node_inputs_def incoming_def read_conn_def
  set_inputs_def run_Merge_1 run_Merge_2 run_Merge_4 lookup_def

lemma lookup_Nil: "lookup [] f = Undefined"
  by (simp add: lookup_def)

lemma lookup_Cons: "lookup ((k, v) # xs) f = (if k = f then v else lookup xs f)"
  by (simp add: lookup_def)

lemma collect_map_Inr: "collect (map (\<lambda>x. Inr (g x)) xs) = Inr (map g xs)"
  by (induction xs) simp_all

lemma map_of_set_inputs_aux:
  "map_of (map (\<lambda>(m, iface, static). if m = n then (m, iface, ins @ static) else (m, iface, static)) xs) k
     = (if k = n then map_option (\<lambda>(iface, static). (iface, ins @ static)) (map_of xs k)
        else map_of xs k)"
  by (induction xs) auto

lemma map_of_set_inputs:
  "map_of (nodes (set_inputs n ins w)) k
     = (if k = n then map_option (\<lambda>(iface, static). (iface, ins @ static)) (map_of (nodes w) k)
        else map_of (nodes w) k)"
  by (simp add: set_inputs_def map_of_set_inputs_aux)

lemma incoming_set_inputs: "incoming (set_inputs n ins w) k = incoming w k"
  by (simp add: set_inputs_def incoming_def)

lemma incoming_desc: "incoming (w\<lparr>desc := d\<rparr>) n = incoming w n"
  by (simp add: incoming_def)

lemma node_inputs_desc: "node_inputs ext (w\<lparr>desc := d\<rparr>) st n = node_inputs ext w st n"
  by (simp add: node_inputs_def incoming_desc split: option.splits)

lemma exec_node_desc: "exec_node ext (w\<lparr>desc := d\<rparr>) n st = exec_node ext w n st"
  by (simp add: exec_node_def node_inputs_desc split: option.splits)

lemma exec_nodes_desc: "exec_nodes ext (w\<lparr>desc := d\<rparr>) ns st = exec_nodes ext w ns st"
  by (induction ns arbitrary: st) (simp_all add: exec_node_desc split: sum.splits)

lemma set_inputs_desc: "set_inputs n ins (w\<lparr>desc := d\<rparr>) = (set_inputs n ins w)\<lparr>desc := d\<rparr>"
  by (simp add: set_inputs_def)

lemmas eval_defs = exec_node_def node_inputs_def map_of_set_inputs incoming_set_inputs
  read_conn_def run_Merge_1 run_Merge_2 run_Merge_4 lookup_Nil lookup_Cons

lemma threshold_run:
  "run_iface ext (MapNode Clip ''in_file'') [(''in_file'', ListV (map Image vols)), (''minimum'', IntV 0)]
     = Inr [(''out_file'', ListV (map (\<lambda>d. Image (map (\<lambda>x. max x 0) d)) vols))]"
  by (simp add: lookup_Cons lookup_Nil run_Clip_def o_def collect_map_Inr)

lemma exec_nodes_append:
  "exec_nodes ext w (xs @ ys) st =
     (case exec_nodes ext w xs st of Inl e \<Rightarrow> Inl e | Inr st' \<Rightarrow> exec_nodes ext w ys st')"
  by (induction xs arbitrary: st) (simp_all split: sum.splits)

lemma record_outputs_other: "m \<noteq> n \<Longrightarrow> record_outputs n outs st (m, f) = st (m, f)"
  by (induction outs) auto

lemma record_outputs_lookup:
  "map_of outs f = Some v \<Longrightarrow> record_outputs n outs st (n, f) = Some v"
  by (induction outs) (auto split: if_splits)

lemma exec_node_frame:
  "exec_node ext w n st = Inr st' \<Longrightarrow> m \<noteq> n \<Longrightarrow> st' (m, f) = st (m, f)"
  by (auto simp: exec_node_def record_outputs_other split: option.splits sum.splits)

lemma exec_nodes_frame:
  "exec_nodes ext w ns st = Inr st' \<Longrightarrow> m \<notin> set ns \<Longrightarrow> st' (m, f) = st (m, f)"
proof (induction ns arbitrary: st)
  case Nil
  then show ?case by simp
next
  case (Cons n ns)
  from Cons.prems(1) obtain st1 where s: "exec_node ext w n st = Inr st1"
    "exec_nodes ext w ns st1 = Inr st'"
    by (auto split: sum.splits)
  from Cons.prems(2) have "m \<noteq> n" "m \<notin> set ns" by auto
  then show ?case using Cons.IH[OF s(2)] exec_node_frame[OF s(1)] by simp
qed

lemma collect_Inr:
  "collect xs = Inr ys \<Longrightarrow> length ys = length xs \<and> (\<forall>i<length xs. xs ! i = Inr (ys ! i))"
proof (induction xs arbitrary: ys)
  case Nil
  then show ?case by simp
next
  case (Cons x xs)
  from Cons.prems obtain v vs where v: "x = Inr v" "collect xs = Inr vs" "ys = v # vs"
    by (auto split: sum.splits)
  from Cons.IH[OF v(2)] v show ?case by (auto simp: nth_Cons')
qed

lemma complete_Inr:
  "complete branch sched slots = Inr slots' \<Longrightarrow>
     (\<forall>i\<in>set sched. \<exists>st. branch i = Inr st \<and> slots' i = Some st)
     \<and> (\<forall>i. i \<notin> set sched \<longrightarrow> slots' i = slots i)"
proof (induction sched arbitrary: slots)
  case Nil
  then show ?case by simp
next
  case (Cons j sched)
  from Cons.prems obtain st where st: "branch j = Inr st"
    "complete branch sched (slots(j \<mapsto> st)) = Inr slots'"
    by (auto split: sum.splits)
  note ih = Cons.IH[OF st(2)]
  show ?case
  proof (intro conjI ballI allI impI)
    fix i assume "i \<in> set (j # sched)"
    show "\<exists>st. branch i = Inr st \<and> slots' i = Some st"
    proof (cases "i \<in> set sched")
      case True
      with ih show ?thesis by blast
    next
      case False
      with \<open>i \<in> set (j # sched)\<close> have "i = j" by simp
      with False ih st(1) show ?thesis by simp
    qed
  next
    fix i assume "i \<notin> set (j # sched)"
    with ih show "slots' i = slots i" by simp
  qed
qed

lemma join_field_Inr:
  assumes "join_field ext slots n c = Inr (f, v)"
  shows "f = dst_field c \<and> (\<exists>vs. v = ListV vs \<and> length vs = n
           \<and> (\<forall>i<n. read_slot ext slots c i = Inr (vs ! i)))"
proof -
  from assms obtain vs where vs: "collect (map (read_slot ext slots c) [0..<n]) = Inr vs"
    "f = dst_field c" "v = ListV vs"
    by (auto simp: join_field_def split: sum.splits)
  from collect_Inr[OF vs(1)] vs show ?thesis by auto
qed

lemma join_fields_lookup:
  "collect (map (\<lambda>f. join_field ext slots n (Conn p f Direct d f)) names) = Inr ins \<Longrightarrow>
   f \<in> set names \<Longrightarrow>
   \<exists>vs. lookup ins f = ListV vs \<and> length vs = n
      \<and> (\<forall>i<n. read_slot ext slots (Conn p f Direct d f) i = Inr (vs ! i))"
proof (induction names arbitrary: ins)
  case Nil
  then show ?case by simp
next
  case (Cons g names)
  from Cons.prems(1) obtain x xs where x: "join_field ext slots n (Conn p g Direct d g) = Inr x"
    "collect (map (\<lambda>f. join_field ext slots n (Conn p f Direct d f)) names) = Inr xs" "ins = x # xs"
    by (auto split: sum.splits)
  obtain k v where kv: "x = (k, v)" by (cases x)
  from join_field_Inr[OF x(1)[unfolded kv]] obtain vs where vs: "k = g" "v = ListV vs"
    "length vs = n" "\<forall>i<n. read_slot ext slots (Conn p g Direct d g) i = Inr (vs ! i)"
    by auto
  show ?case
  proof (cases "g = f")
    case True
    with vs kv x(3) show ?thesis by (simp add: lookup_Cons)
  next
    case False
    with Cons.prems(2) have "f \<in> set names" by simp
    from Cons.IH[OF x(2) this] False vs kv x(3) show ?thesis by (simp add: lookup_Cons)
  qed
qed

lemma read_slot_Direct:
  "read_slot ext slots (Conn p f Direct d g) i = Inr v \<Longrightarrow>
   \<exists>st. slots i = Some st \<and> st (p, f) = Some v"
  by (auto simp: read_slot_def read_conn_def split: option.splits sum.splits)

lemma lookup_map_names: "f \<in> set names \<Longrightarrow> lookup (map (\<lambda>f. (f, g f)) names) f = g f"
  by (induction names) (auto simp: lookup_Cons lookup_Nil)

lemma index_of_nth: "distinct xs \<Longrightarrow> i < length xs \<Longrightarrow> index_of xs (xs ! i) = Some i"
proof (induction xs arbitrary: i)
  case Nil then show ?case by simp
next
  case (Cons x xs)
  then show ?case by (cases i) auto
qed

lemma index_of_None: "k \<notin> set xs \<Longrightarrow> index_of xs k = None"
  by (induction xs) auto

section \<open>Goodvoxels: thresholds and mask\<close>

lemma goodvoxels_nodes:
  "map_of (nodes init_goodvoxels_bold_mask_wf) ''merge_mod_ribbon_stats'' = Some (Merge 2, [])"
  "map_of (nodes init_goodvoxels_bold_mask_wf) ''upper_thr_val'' =
     Some (Function [''in_stats''] [''upper_thresh''] calc_upper_thr, [])"
  "map_of (nodes init_goodvoxels_bold_mask_wf) ''lower_thr_val'' =
     Some (Function [''in_stats''] [''lower_thresh''] calc_lower_thr, [])"
  "map_of (nodes init_goodvoxels_bold_mask_wf) ''goodvoxels_thr'' = Some (Threshold, [])"
  "map_of (nodes init_goodvoxels_bold_mask_wf) ''merge_goodvoxels_operands'' = Some (Merge 2, [])"
  "map_of (nodes init_goodvoxels_bold_mask_wf) ''goodvoxels_mask'' =
     Some (MultiImageMaths, [(''op_string'', StrV ''-bin -sub %s -mul -1'')])"
  unfolding init_goodvoxels_bold_mask_wf_def workflow.select_convs
  by ((rule node_hit, (simp; fail)) | (rule node_miss, (simp; fail)))+

lemma goodvoxels_incoming:
  "incoming init_goodvoxels_bold_mask_wf ''merge_mod_ribbon_stats'' =
     [C ''mod_ribbon_mean'' ''out_stat'' ''merge_mod_ribbon_stats'' ''in1'',
      C ''mod_ribbon_std'' ''out_stat'' ''merge_mod_ribbon_stats'' ''in2'']"
  "incoming init_goodvoxels_bold_mask_wf ''upper_thr_val'' =
     [C ''merge_mod_ribbon_stats'' ''out'' ''upper_thr_val'' ''in_stats'']"
  "incoming init_goodvoxels_bold_mask_wf ''lower_thr_val'' =
     [C ''merge_mod_ribbon_stats'' ''out'' ''lower_thr_val'' ''in_stats'']"
  "incoming init_goodvoxels_bold_mask_wf ''goodvoxels_thr'' =
     [C ''upper_thr_val'' ''upper_thresh'' ''goodvoxels_thr'' ''thresh'',
      C ''cov_norm_modulate'' ''out_file'' ''goodvoxels_thr'' ''in_file'']"
  "incoming init_goodvoxels_bold_mask_wf ''merge_goodvoxels_operands'' =
     [C ''bin_mean_volume'' ''out_file'' ''merge_goodvoxels_operands'' ''in1'']"
  "incoming init_goodvoxels_bold_mask_wf ''goodvoxels_mask'' =
     [C ''goodvoxels_thr'' ''out_file'' ''goodvoxels_mask'' ''in_file'',
      C ''merge_goodvoxels_operands'' ''out'' ''goodvoxels_mask'' ''operand_files'']"
  unfolding incoming_def init_goodvoxels_bold_mask_wf_def workflow.select_convs
  by ((rule conns_keep, (simp; fail)) | (rule conns_skip, (simp; fail)) | rule conns_done)+

lemmas goodvoxels_exec =
  exec_node_eval[OF goodvoxels_nodes(1) goodvoxels_incoming(1)]
  exec_node_eval[OF goodvoxels_nodes(2) goodvoxels_incoming(2)]
  exec_node_eval[OF goodvoxels_nodes(3) goodvoxels_incoming(3)]
  exec_node_eval[OF goodvoxels_nodes(4) goodvoxels_incoming(4)]
  exec_node_eval[OF goodvoxels_nodes(5) goodvoxels_incoming(5)]
  exec_node_eval[OF goodvoxels_nodes(6) goodvoxels_incoming(6)]

text \<open>
  Claim C2. Given the ribbon statistics \<open>mod_mean\<close> and \<open>mod_std\<close> of the modulated
  normalised COV volume (the outputs of \<^verbatim>\<open>mod_ribbon_mean\<close> and \<^verbatim>\<open>mod_ribbon_std\<close>), the
  estimator merges them into the pair \<open>[mod_mean, mod_std]\<close> and computes the upper threshold
  \<open>mod_mean + 0.5 * mod_std\<close> and the lower threshold \<open>mod_std - 0.5 * mod_mean\<close>.
\<close>

theorem goodvoxels_thresholds:
  "exec_nodes ext init_goodvoxels_bold_mask_wf
     [''merge_mod_ribbon_stats'', ''upper_thr_val'', ''lower_thr_val'']
     (st((''mod_ribbon_mean'', ''out_stat'') \<mapsto> FloatV mod_mean,
         (''mod_ribbon_std'', ''out_stat'') \<mapsto> FloatV mod_std))
   = Inr (st((''mod_ribbon_mean'', ''out_stat'') \<mapsto> FloatV mod_mean,
             (''mod_ribbon_std'', ''out_stat'') \<mapsto> FloatV mod_std,
             (''merge_mod_ribbon_stats'', ''out'') \<mapsto> ListV [FloatV mod_mean, FloatV mod_std],
             (''upper_thr_val'', ''upper_thresh'') \<mapsto> FloatV (mod_mean + 0.5 * mod_std),
             (''lower_thr_val'', ''lower_thresh'') \<mapsto> FloatV (mod_std - 0.5 * mod_mean)))"
  by (simp add: goodvoxels_exec run_defs run_Function_def)

theorem goodvoxels_thresholds_witness:
  "exec_nodes (\<lambda>tool ins f. Undefined) init_goodvoxels_bold_mask_wf
     [''merge_mod_ribbon_stats'', ''upper_thr_val'', ''lower_thr_val'']
     [(''mod_ribbon_mean'', ''out_stat'') \<mapsto> FloatV 2,
      (''mod_ribbon_std'', ''out_stat'') \<mapsto> FloatV 1]
   = Inr [(''mod_ribbon_mean'', ''out_stat'') \<mapsto> FloatV 2,
          (''mod_ribbon_std'', ''out_stat'') \<mapsto> FloatV 1,
          (''merge_mod_ribbon_stats'', ''out'') \<mapsto> ListV [FloatV 2, FloatV 1],
          (''upper_thr_val'', ''upper_thresh'') \<mapsto> FloatV 2.5,
          (''lower_thr_val'', ''lower_thresh'') \<mapsto> FloatV 0]"
  using goodvoxels_thresholds[of "\<lambda>tool ins f. Undefined" Map.empty 2 1]
  by simp

lemma goodvoxels_tail_eq:
  assumes "length brain = length modcov"
  shows "\<exists>st. goodvoxels_tail ext upper modcov brain = Inr st
     \<and> st (''goodvoxels_mask'', ''out_file'') =
          Some (Image (map (\<lambda>(x, b). goodvoxel upper x b) (zip modcov brain)))"
  using assms
  by (simp add: goodvoxels_tail_def goodvoxels_exec run_defs
      run_Threshold_def run_MultiImageMaths_def parse_arg_def parse_int_def goodvoxel_def
      zip_map1 zip_map2 map_zip_map split_def o_def zip_replicate2)

lemma goodvoxel_mono: "upper \<le> upper' \<Longrightarrow> goodvoxel upper x b \<le> goodvoxel upper' x b"
  by (simp add: goodvoxel_def)

text \<open>
  Claim C8. For a fixed modulated-COV volume and brain mask, raising the upper threshold
  never lowers a voxel of the goodvoxels mask: the mask at the larger threshold is
  voxelwise at least the mask at the smaller one, so every voxel kept (positive) at the
  smaller threshold is kept at the larger.
\<close>

theorem goodvoxels_mask_monotone:
  assumes "upper \<le> upper'" and "length brain = length modcov"
  shows "\<exists>st st' g g'.
           goodvoxels_tail ext upper modcov brain = Inr st
         \<and> goodvoxels_tail ext upper' modcov brain = Inr st'
         \<and> st (''goodvoxels_mask'', ''out_file'') = Some (Image g)
         \<and> st' (''goodvoxels_mask'', ''out_file'') = Some (Image g')
         \<and> length g = length modcov \<and> length g' = length modcov
         \<and> (\<forall>i<length modcov. g ! i \<le> g' ! i \<and> (0 < g ! i \<longrightarrow> 0 < g' ! i))"
proof -
  obtain st where st: "goodvoxels_tail ext upper modcov brain = Inr st"
    "st (''goodvoxels_mask'', ''out_file'') =
       Some (Image (map (\<lambda>(x, b). goodvoxel upper x b) (zip modcov brain)))"
    using goodvoxels_tail_eq[OF assms(2)] by blast
  obtain st' where st': "goodvoxels_tail ext upper' modcov brain = Inr st'"
    "st' (''goodvoxels_mask'', ''out_file'') =
       Some (Image (map (\<lambda>(x, b). goodvoxel upper' x b) (zip modcov brain)))"
    using goodvoxels_tail_eq[OF assms(2)] by blast
  have "\<forall>i<length modcov.
          map (\<lambda>(x, b). goodvoxel upper x b) (zip modcov brain) ! i
            \<le> map (\<lambda>(x, b). goodvoxel upper' x b) (zip modcov brain) ! i"
    using assms goodvoxel_mono[OF assms(1)] by simp
  then have "\<forall>i<length modcov.
          map (\<lambda>(x, b). goodvoxel upper x b) (zip modcov brain) ! i
            \<le> map (\<lambda>(x, b). goodvoxel upper' x b) (zip modcov brain) ! i
        \<and> (0 < map (\<lambda>(x, b). goodvoxel upper x b) (zip modcov brain) ! i
             \<longrightarrow> 0 < map (\<lambda>(x, b). goodvoxel upper' x b) (zip modcov brain) ! i)"
    by fastforce
  with st st' assms(2) show ?thesis
    by (intro exI[of _ st] exI[of _ st']
        exI[of _ "map (\<lambda>(x, b). goodvoxel upper x b) (zip modcov brain)"]
        exI[of _ "map (\<lambda>(x, b). goodvoxel upper' x b) (zip modcov brain)"]) simp
qed

theorem goodvoxels_mask_monotone_witness:
  "(1::real) \<le> 2 \<and> length [1, 1, 1 :: real] = length [0.5, 1.5, 3 :: real]
   \<and> (\<exists>st st'.
           goodvoxels_tail (\<lambda>tool ins f. Undefined) 1 [0.5, 1.5, 3] [1, 1, 1] = Inr st
         \<and> goodvoxels_tail (\<lambda>tool ins f. Undefined) 2 [0.5, 1.5, 3] [1, 1, 1] = Inr st'
         \<and> st (''goodvoxels_mask'', ''out_file'') = Some (Image [1, 0, 0])
         \<and> st' (''goodvoxels_mask'', ''out_file'') = Some (Image [1, 1, 0]))"
proof -
  obtain st st' g g' where r:
    "goodvoxels_tail (\<lambda>tool ins f. Undefined) 1 [0.5, 1.5, 3] [1, 1, 1] = Inr st"
    "goodvoxels_tail (\<lambda>tool ins f. Undefined) 2 [0.5, 1.5, 3] [1, 1, 1] = Inr st'"
    using goodvoxels_mask_monotone[of 1 2 "[1, 1, 1]" "[0.5, 1.5, 3]" "\<lambda>tool ins f. Undefined"]
    by auto
  obtain s where s: "goodvoxels_tail (\<lambda>tool ins f. Undefined) 1 [0.5, 1.5, 3] [1, 1, 1] = Inr s"
    "s (''goodvoxels_mask'', ''out_file'') =
       Some (Image (map (\<lambda>(x, b). goodvoxel 1 x b) (zip [0.5, 1.5, 3] [1, 1, 1])))"
    using goodvoxels_tail_eq[of "[1, 1, 1]" "[0.5, 1.5, 3]" "\<lambda>tool ins f. Undefined" 1] by auto
  obtain s' where s': "goodvoxels_tail (\<lambda>tool ins f. Undefined) 2 [0.5, 1.5, 3] [1, 1, 1] = Inr s'"
    "s' (''goodvoxels_mask'', ''out_file'') =
       Some (Image (map (\<lambda>(x, b). goodvoxel 2 x b) (zip [0.5, 1.5, 3] [1, 1, 1])))"
    using goodvoxels_tail_eq[of "[1, 1, 1]" "[0.5, 1.5, 3]" "\<lambda>tool ins f. Undefined" 2] by auto
  from r s s' have "st = s" "st' = s'" by simp_all
  with r s s' show ?thesis by (simp add: goodvoxel_def)
qed

section \<open>Grayordinates: selecting the subcortical volume\<close>

text \<open>
  Claim C7. The grayordinates workflow selects, from the standard-space outputs listed
  under \<^verbatim>\<open>spatial_reference\<close>, exactly the entry whose key is \<^verbatim>\<open>MNI152NLin6Asym_res-2\<close> for
  density 91k and \<^verbatim>\<open>MNI152NLin6Asym_res-1\<close> for density 170k, hands it to the CIFTI
  generator as the volume, and fails (with the \<^verbatim>\<open>ValueError\<close> of \<^verbatim>\<open>KeySelect\<close>) when no
  listed key equals it.
\<close>

theorem grayords_select_std:
  assumes gd: "gd = ''91k'' \<and> k = ''MNI152NLin6Asym_res-2'' \<or> gd = ''170k'' \<and> k = ''MNI152NLin6Asym_res-1''"
    and keys: "distinct keys" "length vals = length keys"
  shows "(\<forall>i<length keys. keys ! i = StrV k \<longrightarrow>
           (\<exists>st. exec_nodes ext
                   (set_inputs ''inputnode''
                      [(''bold_std'', ListV vals), (''spatial_reference'', ListV keys), (''bold_fsLR'', surf)]
                      (init_bold_grayords_wf gd tr))
                   grayords_order Map.empty = Inr st
               \<and> st (''select_std'', ''key'') = Some (StrV k)
               \<and> st (''select_std'', ''bold_std'') = Some (vals ! i)
               \<and> st (''outputnode'', ''cifti_bold'') =
                   Some (ext ''GenerateCifti''
                          [(''surface_bolds'', surf), (''bold_file'', vals ! i),
                           (''TR'', FloatV tr), (''grayordinates'', StrV gd)] ''out_file'')))
       \<and> (StrV k \<notin> set keys \<longrightarrow>
            exec_nodes ext
              (set_inputs ''inputnode''
                 [(''bold_std'', ListV vals), (''spatial_reference'', ListV keys), (''bold_fsLR'', surf)]
                 (init_bold_grayords_wf gd tr))
              grayords_order Map.empty = Inl ValueError)"
proof -
  have k: "StrV (''MNI152NLin6Asym_res-'' @ mni_density gd) = StrV k"
    using gd by (auto simp: mni_density_def)
  show ?thesis
  proof (intro conjI allI impI)
    fix i assume i: "i < length keys" "keys ! i = StrV k"
    have ix: "index_of keys (StrV k) = Some i"
      using index_of_nth[OF keys(1) i(1)] i(2) by simp
    have ne: "vals \<noteq> []" using i(1) keys(2) by auto
    show "\<exists>st. exec_nodes ext
                   (set_inputs ''inputnode''
                      [(''bold_std'', ListV vals), (''spatial_reference'', ListV keys), (''bold_fsLR'', surf)]
                      (init_bold_grayords_wf gd tr))
                   grayords_order Map.empty = Inr st
               \<and> st (''select_std'', ''key'') = Some (StrV k)
               \<and> st (''select_std'', ''bold_std'') = Some (vals ! i)
               \<and> st (''outputnode'', ''cifti_bold'') =
                   Some (ext ''GenerateCifti''
                          [(''surface_bolds'', surf), (''bold_file'', vals ! i),
                           (''TR'', FloatV tr), (''grayordinates'', StrV gd)] ''out_file'')"
      using k ix ne keys
      by (simp add: grayords_order_def init_bold_grayords_wf_def exec_defs run_KeySelect_def)
  next
    assume "StrV k \<notin> set keys"
    then have ix: "index_of keys (StrV k) = None" by (rule index_of_None)
    show "exec_nodes ext
              (set_inputs ''inputnode''
                 [(''bold_std'', ListV vals), (''spatial_reference'', ListV keys), (''bold_fsLR'', surf)]
                 (init_bold_grayords_wf gd tr))
              grayords_order Map.empty = Inl ValueError"
      using k ix keys
      by (simp add: grayords_order_def init_bold_grayords_wf_def exec_defs run_KeySelect_def)
  qed
qed

theorem grayords_select_std_witness:
  "(''91k'' = ''91k'' \<and> ''MNI152NLin6Asym_res-2'' = ''MNI152NLin6Asym_res-2'')
   \<and> distinct [StrV ''MNI152Lin_res-2'', StrV ''MNI152NLin6Asym_res-2'']
   \<and> (\<exists>st. exec_nodes (\<lambda>tool ins f. StrV tool)
            (set_inputs ''inputnode''
               [(''bold_std'', ListV [StrV ''a.nii'', StrV ''b.nii'']),
                (''spatial_reference'', ListV [StrV ''MNI152Lin_res-2'', StrV ''MNI152NLin6Asym_res-2'']),
                (''bold_fsLR'', ListV [StrV ''L.gii'', StrV ''R.gii''])]
               (init_bold_grayords_wf ''91k'' 2))
            grayords_order Map.empty = Inr st
        \<and> st (''select_std'', ''bold_std'') = Some (StrV ''b.nii''))"
  using grayords_select_std[of "''91k''" "''MNI152NLin6Asym_res-2''"
      "[StrV ''MNI152Lin_res-2'', StrV ''MNI152NLin6Asym_res-2'']"
      "[StrV ''a.nii'', StrV ''b.nii'']" "\<lambda>tool ins f. StrV tool"
      "ListV [StrV ''L.gii'', StrV ''R.gii'']" 2]
  by (auto simp: nth_Cons' less_Suc_eq all_conj_distrib)

section \<open>Template selection\<close>

text \<open>
  The claim C6 as stated fails: a request with an explicit resolution is looked up once,
  and its failure is raised although the template has images at resolutions 2 and 1.
\<close>

theorem select_template_explicit_counterexample:
  "select_template (available [1, 2]) [TupleV [StrV ''MNI152NLin6Asym'', DictV [(''res'', IntV 3)]]]
     = Inl RuntimeError
   \<and> available [1, 2] ''MNI152NLin6Asym'' [(''suffix'', StrV ''T1w''), (''resolution'', IntV 2)]
       = Inr (StrV ''MNI152NLin6Asym_T1w.nii.gz'', DictV [(''resolution'', IntV 2)])
   \<and> available [1, 2] ''MNI152NLin6Asym'' [(''suffix'', StrV ''T1w''), (''resolution'', IntV 1)]
       = Inr (StrV ''MNI152NLin6Asym_T1w.nii.gz'', DictV [(''resolution'', IntV 1)])"
  by (simp add: available_def split_colon_def first_of_def sanitize_def dict_get_def)

text \<open>
  Claim C6, amended. \<open>res\<close> is the requested resolution after sanitizing (\<^verbatim>\<open>res\<close>, else
  \<^verbatim>\<open>resolution\<close>, else \<^verbatim>\<open>native\<close>). A request with a resolution other than \<^verbatim>\<open>native\<close> is
  looked up at exactly that resolution, with no fallback. A request without a resolution,
  or with \<^verbatim>\<open>native\<close>, is looked up at resolution 2 first; if that lookup raises
  \<^verbatim>\<open>RuntimeError\<close>, resolution 1 is tried, and its result or error is the outcome; any
  other error of the first lookup is raised as it is.
\<close>

theorem select_template_policy:
  assumes "sanitize (AList.update ''suffix'' (dict_get specs ''suffix'' (StrV ''T1w'')) specs) = (res, sp)"
  shows "(res \<noteq> StrV ''native'' \<longrightarrow>
            select_template gts [TupleV [StrV t, DictV specs]]
              = first_of (gts (split_colon t) (AList.update ''resolution'' res sp)))
       \<and> (res = StrV ''native'' \<longrightarrow>
            (\<forall>out. gts (split_colon t) (AList.update ''resolution'' (IntV 2) sp) = Inr out \<longrightarrow>
                   select_template gts [TupleV [StrV t, DictV specs]] = Inr (fst out))
          \<and> (gts (split_colon t) (AList.update ''resolution'' (IntV 2) sp) = Inl RuntimeError \<longrightarrow>
                   select_template gts [TupleV [StrV t, DictV specs]]
                     = first_of (gts (split_colon t) (AList.update ''resolution'' (IntV 1) sp)))
          \<and> (\<forall>e. gts (split_colon t) (AList.update ''resolution'' (IntV 2) sp) = Inl e
                   \<and> e \<noteq> RuntimeError \<longrightarrow>
                   select_template gts [TupleV [StrV t, DictV specs]] = Inl e))"
  using assms by (auto simp: Let_def)

theorem select_template_policy_witness:
  "sanitize (AList.update ''suffix'' (dict_get [] ''suffix'' (StrV ''T1w'')) [])
     = (StrV ''native'', [(''suffix'', StrV ''T1w'')])
   \<and> available [1] ''MNI152Lin'' [(''suffix'', StrV ''T1w''), (''resolution'', IntV 2)] = Inl RuntimeError
   \<and> select_template (available [1]) [TupleV [StrV ''MNI152Lin'', DictV []]]
       = Inr (StrV ''MNI152Lin_T1w.nii.gz'')"
proof -
  have s: "sanitize (AList.update ''suffix'' (dict_get [] ''suffix'' (StrV ''T1w'')) [])
     = (StrV ''native'', [(''suffix'', StrV ''T1w'')])"
    by (simp add: sanitize_def dict_get_def)
  have a: "available [1] (split_colon ''MNI152Lin'')
             (AList.update ''resolution'' (IntV 2) [(''suffix'', StrV ''T1w'')]) = Inl RuntimeError"
    by (simp add: available_def split_colon_def)
  from select_template_policy[OF s, of "available [1]" "''MNI152Lin''"] a
  have "select_template (available [1]) [TupleV [StrV ''MNI152Lin'', DictV []]]
      = first_of (available [1] (split_colon ''MNI152Lin'')
           (AList.update ''resolution'' (IntV 1) [(''suffix'', StrV ''T1w'')]))"
    by blast
  then show ?thesis using s
    by (simp add: available_def split_colon_def first_of_def)
qed

section \<open>Standard-space and native-space resampling\<close>

lemma conns_app: "filter P xs = r \<Longrightarrow> filter P ys = r' \<Longrightarrow> filter P (xs @ ys) = r @ r'"
  by simp

lemma conns_opt_none:
  "(\<And>c. c \<in> set xs \<Longrightarrow> dst c \<noteq> n) \<Longrightarrow> filter (\<lambda>c. dst c = n) (if b then xs else []) = []"
  by (auto simp: filter_empty_conv)

lemma conns_join_none:
  "d \<noteq> n \<Longrightarrow> filter (\<lambda>c. dst c = n) (map (\<lambda>f. Conn s f m d f) fs) = []"
  by (auto simp: filter_empty_conv)

lemma aslist_Inr: "aslist v = Inr (ListV (case v of ListV xs \<Rightarrow> xs | _ \<Rightarrow> [v]))"
  by (cases v) simp_all

lemma std_nodes:
  "map_of (nodes (init_bold_std_trans_wf gts fs sp me uc)) ''inputnode'' =
     Some (IdentityInterface
           [''anat2std_xfm'', ''bold_aparc'', ''bold_aseg'', ''bold_mask'', ''bold_split'', ''t2star'',
            ''fieldwarp'', ''hmc_xforms'', ''itk_bold_to_t1'', ''name_source'', ''templates''], [])"
  "map_of (nodes (init_bold_std_trans_wf gts fs sp me uc)) ''iterablesource'' =
     Some (IdentityInterface [''std_target''], [])"
  "map_of (nodes (init_bold_std_trans_wf gts fs sp me uc)) ''split_target'' =
     Some (Function [''in_target''] [''space'', ''template'', ''spec''] split_spec, [])"
  "map_of (nodes (init_bold_std_trans_wf gts fs sp me uc)) ''select_std'' =
     Some (KeySelect [''anat2std_xfm''], [])"
  "map_of (nodes (init_bold_std_trans_wf gts fs sp me uc)) ''merge_xforms'' = Some (Merge 4, [])"
  "map_of (nodes (init_bold_std_trans_wf gts fs sp me uc)) ''bold_to_std_transform'' =
     Some (External ''MultiApplyTransforms'' [''out_files''],
           [(''interpolation'', StrV ''LanczosWindowedSinc''), (''float'', BoolV True),
            (''copy_dtype'', BoolV True)])"
  "map_of (nodes (init_bold_std_trans_wf gts fs sp me uc)) ''threshold'' =
     Some (MapNode Clip ''in_file'', [(''minimum'', IntV 0)])"
  "map_of (nodes (init_bold_std_trans_wf gts fs sp me uc)) ''merge'' =
     Some (External ''Merge'' [''out_file''], [(''compress'', BoolV uc)])"
  "map_of (nodes (init_bold_std_trans_wf gts fs sp me uc)) ''poutputnode'' =
     Some (IdentityInterface (output_names fs me), [])"
  unfolding init_bold_std_trans_wf_def workflow.select_convs append_Cons append_Nil
  by ((rule node_hit, (simp; fail)) | (rule node_miss, (simp; fail)))+

lemma std_incoming:
  "incoming (init_bold_std_trans_wf gts fs sp me uc) ''inputnode'' = [] @ [] @ [] @ []"
  "incoming (init_bold_std_trans_wf gts fs sp me uc) ''iterablesource'' = [] @ [] @ [] @ []"
  "incoming (init_bold_std_trans_wf gts fs sp me uc) ''split_target'' =
     [C ''iterablesource'' ''std_target'' ''split_target'' ''in_target''] @ [] @ [] @ []"
  "incoming (init_bold_std_trans_wf gts fs sp me uc) ''select_std'' =
     [C ''inputnode'' ''anat2std_xfm'' ''select_std'' ''anat2std_xfm'',
      C ''inputnode'' ''templates'' ''select_std'' ''keys'',
      C ''split_target'' ''space'' ''select_std'' ''key''] @ [] @ [] @ []"
  "incoming (init_bold_std_trans_wf gts fs sp me uc) ''merge_xforms'' =
     [C ''inputnode'' ''hmc_xforms'' ''merge_xforms'' ''in4'',
      C ''inputnode'' ''fieldwarp'' ''merge_xforms'' ''in3'',
      Conn ''inputnode'' ''itk_bold_to_t1'' (PyFn aslist) ''merge_xforms'' ''in2'',
      C ''select_std'' ''anat2std_xfm'' ''merge_xforms'' ''in1''] @ [] @ [] @ []"
  "incoming (init_bold_std_trans_wf gts fs sp me uc) ''bold_to_std_transform'' =
     [C ''inputnode'' ''bold_split'' ''bold_to_std_transform'' ''input_image'',
      C ''merge_xforms'' ''out'' ''bold_to_std_transform'' ''transforms'',
      C ''gen_ref'' ''out_file'' ''bold_to_std_transform'' ''reference_image''] @ [] @ [] @ []"
  "incoming (init_bold_std_trans_wf gts fs sp me uc) ''threshold'' =
     [C ''bold_to_std_transform'' ''out_files'' ''threshold'' ''in_file''] @ [] @ [] @ []"
  "incoming (init_bold_std_trans_wf gts fs sp me uc) ''merge'' =
     [C ''inputnode'' ''name_source'' ''merge'' ''header_source'',
      C ''threshold'' ''out_file'' ''merge'' ''in_files''] @ [] @ [] @ []"
  unfolding incoming_def init_bold_std_trans_wf_def workflow.select_convs
  by ((rule conns_app) | (rule conns_keep, (simp; fail)) | (rule conns_skip, (simp; fail))
      | rule conns_done | (rule conns_opt_none, (auto; fail)) | (rule conns_join_none, (simp; fail)))+

lemmas std_in = std_incoming[simplified]

lemma preproc_nodes:
  "map_of (nodes (init_bold_preproc_trans_wf uc uf interp)) ''inputnode''
     = Some (IdentityInterface [''name_source'', ''bold_file'', ''hmc_xforms'', ''fieldwarp''], [])"
  "map_of (nodes (init_bold_preproc_trans_wf uc uf interp)) ''merge_xforms'' = Some (Merge 2, [])"
  "map_of (nodes (init_bold_preproc_trans_wf uc uf interp)) ''bold_transform''
     = Some (External ''MultiApplyTransforms'' [''out_files''],
           [(''interpolation'', StrV interp), (''copy_dtype'', BoolV True)])"
  "map_of (nodes (init_bold_preproc_trans_wf uc uf interp)) ''threshold''
     = Some (MapNode Clip ''in_file'', [(''minimum'', IntV 0)])"
  "map_of (nodes (init_bold_preproc_trans_wf uc uf interp)) ''merge''
     = Some (External ''Merge'' [''out_file''], [(''compress'', BoolV uc)])"
  "map_of (nodes (init_bold_preproc_trans_wf uc uf interp)) ''outputnode''
     = Some (IdentityInterface [''bold'', ''bold_ref'', ''bold_ref_brain''], [])"
  unfolding init_bold_preproc_trans_wf_def workflow.select_convs
  by ((rule node_hit, (simp; fail)) | (rule node_miss, (simp; fail)))+

lemma preproc_incoming:
  "incoming (init_bold_preproc_trans_wf uc uf interp) ''inputnode'' = []"
  "incoming (init_bold_preproc_trans_wf uc uf interp) ''merge_xforms''
     = [C ''inputnode'' ''fieldwarp'' ''merge_xforms'' ''in1'',
        C ''inputnode'' ''hmc_xforms'' ''merge_xforms'' ''in2'']"
  "incoming (init_bold_preproc_trans_wf uc uf interp) ''bold_transform''
     = [C ''inputnode'' ''bold_file'' ''bold_transform'' ''input_image'',
        Conn ''inputnode'' ''bold_file'' (PyFn first) ''bold_transform'' ''reference_image'',
        C ''merge_xforms'' ''out'' ''bold_transform'' ''transforms'']"
  "incoming (init_bold_preproc_trans_wf uc uf interp) ''threshold''
     = [C ''bold_transform'' ''out_files'' ''threshold'' ''in_file'']"
  "incoming (init_bold_preproc_trans_wf uc uf interp) ''merge''
     = [C ''inputnode'' ''name_source'' ''merge'' ''header_source'',
        C ''threshold'' ''out_file'' ''merge'' ''in_files'']"
  "incoming (init_bold_preproc_trans_wf uc uf interp) ''outputnode''
     = [C ''merge'' ''out_file'' ''outputnode'' ''bold'']"
  unfolding incoming_def init_bold_preproc_trans_wf_def workflow.select_convs
  by ((rule conns_keep, (simp; fail)) | (rule conns_skip, (simp; fail)) | rule conns_done)+

text \<open>
  Claim C3. For a requested standard space, the transform list handed to the one
  resampling node \<^verbatim>\<open>bold_to_std_transform\<close> is: the anatomical-to-standard transform
  selected for that space, then the functional-to-anatomical affine, then the
  distortion-correction field when it is defined, then the motion-correction transforms;
  the node resamples the original split series with this one chain.
\<close>

theorem std_transform_chain:
  assumes "distinct keys" and "length xfms = length keys" and "i < length keys"
    and "keys ! i = StrV space"
  shows "\<exists>st. std_chain_run ext
           (set_inputs ''iterablesource'' [(''std_target'', TupleV [StrV space, DictV sd])]
             (set_inputs ''inputnode''
                [(''anat2std_xfm'', ListV xfms), (''templates'', ListV keys), (''itk_bold_to_t1'', b2t),
                 (''fieldwarp'', fw), (''hmc_xforms'', hmc), (''bold_split'', vols)]
                (init_bold_std_trans_wf gts fs sp me uc))) reference = Inr st
         \<and> st (''select_std'', ''anat2std_xfm'') = Some (xfms ! i)
         \<and> st (''merge_xforms'', ''out'') =
             Some (ListV (merge_items (xfms ! i) @ (case b2t of ListV xs \<Rightarrow> xs | _ \<Rightarrow> [b2t])
                          @ merge_items fw @ merge_items hmc))
         \<and> st (''bold_to_std_transform'', ''out_files'') =
             Some (ext ''MultiApplyTransforms''
                    [(''input_image'', vols),
                     (''transforms'',
                        ListV (merge_items (xfms ! i) @ (case b2t of ListV xs \<Rightarrow> xs | _ \<Rightarrow> [b2t])
                               @ merge_items fw @ merge_items hmc)),
                     (''reference_image'', reference),
                     (''interpolation'', StrV ''LanczosWindowedSinc''), (''float'', BoolV True),
                     (''copy_dtype'', BoolV True)] ''out_files'')"
proof -
  have ne: "xfms \<noteq> []" using assms(2,3) by auto
  have ix: "index_of keys (StrV space) = Some i"
    using index_of_nth[OF assms(1) assms(3)] assms(4) by simp
  show ?thesis
    using assms ne ix
    by (simp add: std_chain_run_def eval_defs std_nodes std_in run_Function_def run_KeySelect_def
        aslist_Inr)
qed

theorem std_transform_chain_witness:
  "distinct [StrV ''MNI152Lin'', StrV ''MNI152NLin6Asym'']
   \<and> (\<exists>st. std_chain_run (\<lambda>tool ins f. StrV tool)
           (set_inputs ''iterablesource'' [(''std_target'', TupleV [StrV ''MNI152NLin6Asym'', DictV []])]
             (set_inputs ''inputnode''
                [(''anat2std_xfm'', ListV [StrV ''anat2lin.h5'', StrV ''anat2nlin6.h5'']),
                 (''templates'', ListV [StrV ''MNI152Lin'', StrV ''MNI152NLin6Asym'']),
                 (''itk_bold_to_t1'', StrV ''bold2anat.txt''),
                 (''fieldwarp'', StrV ''warp.nii.gz''), (''hmc_xforms'', StrV ''hmc.txt''),
                 (''bold_split'', ListV [StrV ''vol0.nii'', StrV ''vol1.nii''])]
                (init_bold_std_trans_wf (available [1, 2]) False
                   \<lparr>cached_spaces = [], references = []\<rparr> False True))) (StrV ''ref.nii'') = Inr st
         \<and> st (''merge_xforms'', ''out'') =
             Some (ListV [StrV ''anat2nlin6.h5'', StrV ''bold2anat.txt'', StrV ''warp.nii.gz'',
                          StrV ''hmc.txt'']))"
  using std_transform_chain[of "[StrV ''MNI152Lin'', StrV ''MNI152NLin6Asym'']"
      "[StrV ''anat2lin.h5'', StrV ''anat2nlin6.h5'']" 1 "''MNI152NLin6Asym''"
      "\<lambda>tool ins f. StrV tool" "[]" "StrV ''bold2anat.txt''" "StrV ''warp.nii.gz''"
      "StrV ''hmc.txt''" "ListV [StrV ''vol0.nii'', StrV ''vol1.nii'']" "available [1, 2]" False
      "\<lparr>cached_spaces = [], references = []\<rparr>" False True "StrV ''ref.nii''"]
  by auto

text \<open>
  Claim C4. In the standard-space and in the native-space resampler the volumes coming
  out of the resampling node go through \<^verbatim>\<open>threshold\<close> before they are merged into the
  output series: every value \<open>x\<close> of every volume becomes \<open>max x 0\<close>.
\<close>

theorem clip_after_resampling:
  "(\<exists>st. exec_nodes ext (init_bold_std_trans_wf gts fs sp me uc) [''threshold'', ''merge'']
           [(''inputnode'', ''name_source'') \<mapsto> ns,
            (''bold_to_std_transform'', ''out_files'') \<mapsto> ListV (map Image vols)] = Inr st
        \<and> st (''threshold'', ''out_file'') =
            Some (ListV (map (\<lambda>d. Image (map (\<lambda>x. max x 0) d)) vols))
        \<and> st (''merge'', ''out_file'') =
            Some (ext ''Merge''
                   [(''header_source'', ns),
                    (''in_files'', ListV (map (\<lambda>d. Image (map (\<lambda>x. max x 0) d)) vols)),
                    (''compress'', BoolV uc)] ''out_file''))
   \<and> (\<exists>st. exec_nodes ext (init_bold_preproc_trans_wf uc uf interp)
           [''threshold'', ''merge'', ''outputnode'']
           [(''inputnode'', ''name_source'') \<mapsto> ns,
            (''bold_transform'', ''out_files'') \<mapsto> ListV (map Image vols)] = Inr st
        \<and> st (''threshold'', ''out_file'') =
            Some (ListV (map (\<lambda>d. Image (map (\<lambda>x. max x 0) d)) vols))
        \<and> st (''outputnode'', ''bold'') =
            Some (ext ''Merge''
                   [(''header_source'', ns),
                    (''in_files'', ListV (map (\<lambda>d. Image (map (\<lambda>x. max x 0) d)) vols)),
                    (''compress'', BoolV uc)] ''out_file''))"
  by (simp add: exec_node_def node_inputs_def std_nodes std_in preproc_nodes preproc_incoming
      read_conn_def threshold_run lookup_Cons lookup_Nil del: run_iface.simps(5))

theorem clip_after_resampling_witness:
  "(\<exists>st. exec_nodes (\<lambda>tool ins f. lookup ins ''in_files'')
           (init_bold_std_trans_wf (available [1, 2]) False
              \<lparr>cached_spaces = [], references = []\<rparr> False True) [''threshold'', ''merge'']
           [(''inputnode'', ''name_source'') \<mapsto> StrV ''bold.nii'',
            (''bold_to_std_transform'', ''out_files'') \<mapsto> ListV [Image [- 0.3, - 0.0001, 0, 5]]] = Inr st
        \<and> st (''merge'', ''out_file'') = Some (ListV [Image [0, 0, 0, 5]]))
   \<and> (\<exists>st. exec_nodes (\<lambda>tool ins f. lookup ins ''in_files'')
           (init_bold_preproc_trans_wf True False ''LanczosWindowedSinc'')
           [''threshold'', ''merge'', ''outputnode'']
           [(''inputnode'', ''name_source'') \<mapsto> StrV ''bold.nii'',
            (''bold_transform'', ''out_files'') \<mapsto> ListV [Image [- 0.3, - 0.0001, 0, 5]]] = Inr st
        \<and> st (''outputnode'', ''bold'') = Some (ListV [Image [0, 0, 0, 5]]))"
  using clip_after_resampling[of "\<lambda>tool ins f. lookup ins ''in_files''" "available [1, 2]" False
      "\<lparr>cached_spaces = [], references = []\<rparr>" False True "StrV ''bold.nii''"
      "[[- 0.3, - 0.0001, 0, 5]]" False "''LanczosWindowedSinc''"]
  by (simp add: lookup_Cons lookup_Nil) blast

lemma preproc_fieldwarp_desc:
  "init_bold_preproc_trans_wf uc True interp
     = (init_bold_preproc_trans_wf uc False interp)\<lparr>desc := desc (init_bold_preproc_trans_wf uc True interp)\<rparr>"
  by (simp add: init_bold_preproc_trans_wf_def)

text \<open>
  Claim C10. In the native-space resampler \<^verbatim>\<open>use_fieldwarp\<close> changes the description only:
  the nodes and connections of the two workflows are the same and any run of them from the
  same inputs gives the same result. For either value, \<^verbatim>\<open>merge_xforms\<close> yields the field
  warp (when defined) followed by the motion-correction transforms, and this list is the
  \<^verbatim>\<open>transforms\<close> input of the resampling node \<^verbatim>\<open>bold_transform\<close>, which resamples
  \<^verbatim>\<open>bold_file\<close> onto its first volume \<open>ref\<close>.
\<close>

theorem preproc_use_fieldwarp:
  assumes "first (lookup ins ''bold_file'') = Inr ref"
  shows "nodes (init_bold_preproc_trans_wf uc True interp) = nodes (init_bold_preproc_trans_wf uc False interp)
   \<and> conns (init_bold_preproc_trans_wf uc True interp) = conns (init_bold_preproc_trans_wf uc False interp)
   \<and> exec_nodes ext (set_inputs ''inputnode'' ins (init_bold_preproc_trans_wf uc True interp)) ns st
       = exec_nodes ext (set_inputs ''inputnode'' ins (init_bold_preproc_trans_wf uc False interp)) ns st
   \<and> (\<exists>st'. exec_nodes ext (set_inputs ''inputnode'' ins (init_bold_preproc_trans_wf uc uf interp))
               [''inputnode'', ''merge_xforms'', ''bold_transform''] Map.empty = Inr st'
           \<and> st' (''merge_xforms'', ''out'')
               = Some (ListV (merge_items (lookup ins ''fieldwarp'') @ merge_items (lookup ins ''hmc_xforms'')))
           \<and> st' (''bold_transform'', ''out_files'')
               = Some (ext ''MultiApplyTransforms''
                        [(''input_image'', lookup ins ''bold_file''),
                         (''reference_image'', ref),
                         (''transforms'',
                            ListV (merge_items (lookup ins ''fieldwarp'')
                                   @ merge_items (lookup ins ''hmc_xforms''))),
                         (''interpolation'', StrV interp), (''copy_dtype'', BoolV True)] ''out_files''))"
proof -
  have "exec_nodes ext (set_inputs ''inputnode'' ins (init_bold_preproc_trans_wf uc True interp)) ns st
       = exec_nodes ext (set_inputs ''inputnode'' ins (init_bold_preproc_trans_wf uc False interp)) ns st"
    by (subst preproc_fieldwarp_desc) (simp only: set_inputs_desc exec_nodes_desc)
  moreover have "\<exists>st'. exec_nodes ext (set_inputs ''inputnode'' ins (init_bold_preproc_trans_wf uc uf interp))
               [''inputnode'', ''merge_xforms'', ''bold_transform''] Map.empty = Inr st'
           \<and> st' (''merge_xforms'', ''out'')
               = Some (ListV (merge_items (lookup ins ''fieldwarp'') @ merge_items (lookup ins ''hmc_xforms'')))
           \<and> st' (''bold_transform'', ''out_files'')
               = Some (ext ''MultiApplyTransforms''
                        [(''input_image'', lookup ins ''bold_file''),
                         (''reference_image'', ref),
                         (''transforms'',
                            ListV (merge_items (lookup ins ''fieldwarp'')
                                   @ merge_items (lookup ins ''hmc_xforms''))),
                         (''interpolation'', StrV interp), (''copy_dtype'', BoolV True)] ''out_files'')"
    using assms by (simp add: eval_defs preproc_nodes preproc_incoming)
  ultimately show ?thesis
    by (simp add: init_bold_preproc_trans_wf_def)
qed

theorem preproc_use_fieldwarp_witness:
  "first (lookup [(''bold_file'', ListV [StrV ''vol0.nii'', StrV ''vol1.nii'']),
                  (''fieldwarp'', StrV ''warp.nii.gz''), (''hmc_xforms'', ListV [StrV ''hmc.txt'']),
                  (''name_source'', StrV ''bold.nii'')] ''bold_file'') = Inr (StrV ''vol0.nii'')
   \<and> (\<exists>st. exec_nodes (\<lambda>tool ins f. if tool = ''MultiApplyTransforms'' then ListV [Image [1, - 1]] else lookup ins ''in_files'')
            (set_inputs ''inputnode''
               [(''bold_file'', ListV [StrV ''vol0.nii'', StrV ''vol1.nii'']),
                (''fieldwarp'', StrV ''warp.nii.gz''), (''hmc_xforms'', ListV [StrV ''hmc.txt'']),
                (''name_source'', StrV ''bold.nii'')]
               (init_bold_preproc_trans_wf True True ''LanczosWindowedSinc'')) preproc_order Map.empty = Inr st
          \<and> exec_nodes (\<lambda>tool ins f. if tool = ''MultiApplyTransforms'' then ListV [Image [1, - 1]] else lookup ins ''in_files'')
            (set_inputs ''inputnode''
               [(''bold_file'', ListV [StrV ''vol0.nii'', StrV ''vol1.nii'']),
                (''fieldwarp'', StrV ''warp.nii.gz''), (''hmc_xforms'', ListV [StrV ''hmc.txt'']),
                (''name_source'', StrV ''bold.nii'')]
               (init_bold_preproc_trans_wf True False ''LanczosWindowedSinc'')) preproc_order Map.empty = Inr st
          \<and> st (''outputnode'', ''bold'') = Some (ListV [Image [1, 0]]))
   \<and> (\<exists>st'. exec_nodes (\<lambda>tool ins f. if tool = ''MultiApplyTransforms'' then lookup ins ''transforms'' else lookup ins ''in_files'')
               (set_inputs ''inputnode''
                  [(''bold_file'', ListV [StrV ''vol0.nii'', StrV ''vol1.nii'']),
                   (''fieldwarp'', StrV ''warp.nii.gz''), (''hmc_xforms'', ListV [StrV ''hmc.txt'']),
                   (''name_source'', StrV ''bold.nii'')]
                  (init_bold_preproc_trans_wf True False ''LanczosWindowedSinc''))
               [''inputnode'', ''merge_xforms'', ''bold_transform''] Map.empty = Inr st'
           \<and> st' (''bold_transform'', ''out_files'') = Some (ListV [StrV ''warp.nii.gz'', StrV ''hmc.txt'']))"
proof -
  let ?ins = "[(''bold_file'', ListV [StrV ''vol0.nii'', StrV ''vol1.nii'']),
                (''fieldwarp'', StrV ''warp.nii.gz''), (''hmc_xforms'', ListV [StrV ''hmc.txt'']),
                (''name_source'', StrV ''bold.nii'')]"
  let ?ext = "\<lambda>tool ins f. if tool = ''MultiApplyTransforms'' then ListV [Image [1, - 1]] else lookup ins ''in_files''"
  let ?ext2 = "\<lambda>tool ins f. if tool = ''MultiApplyTransforms'' then lookup ins ''transforms'' else lookup ins ''in_files''"
  have f: "first (lookup ?ins ''bold_file'') = Inr (StrV ''vol0.nii'')"
    by (simp add: first_def lookup_Cons)
  have run: "\<exists>st. exec_nodes ?ext
            (set_inputs ''inputnode'' ?ins (init_bold_preproc_trans_wf True False ''LanczosWindowedSinc''))
            preproc_order Map.empty = Inr st
          \<and> st (''outputnode'', ''bold'') = Some (ListV [Image [1, 0]])"
    by (simp add: preproc_order_def eval_defs preproc_nodes preproc_incoming first_def run_Clip_def o_def)
  from preproc_use_fieldwarp[OF f, of True "''LanczosWindowedSinc''" ?ext preproc_order Map.empty False] run
  have a: "\<exists>st. exec_nodes ?ext
            (set_inputs ''inputnode'' ?ins (init_bold_preproc_trans_wf True True ''LanczosWindowedSinc''))
            preproc_order Map.empty = Inr st
          \<and> exec_nodes ?ext
            (set_inputs ''inputnode'' ?ins (init_bold_preproc_trans_wf True False ''LanczosWindowedSinc''))
            preproc_order Map.empty = Inr st
          \<and> st (''outputnode'', ''bold'') = Some (ListV [Image [1, 0]])"
    by auto
  from preproc_use_fieldwarp[OF f, of True "''LanczosWindowedSinc''" ?ext2 preproc_order Map.empty False]
  have b: "\<exists>st'. exec_nodes ?ext2
               (set_inputs ''inputnode'' ?ins (init_bold_preproc_trans_wf True False ''LanczosWindowedSinc''))
               [''inputnode'', ''merge_xforms'', ''bold_transform''] Map.empty = Inr st'
           \<and> st' (''bold_transform'', ''out_files'') = Some (ListV [StrV ''warp.nii.gz'', StrV ''hmc.txt''])"
    by (simp add: lookup_Cons lookup_Nil del: exec_nodes.simps) blast
  from f a b show ?thesis by blast
qed

section \<open>Surface resampling onto fsLR\<close>

lemma nested_conns_dst:
  "c \<in> set (nested_conns w) \<Longrightarrow> \<exists>n. dst c = name w @ ''.'' @ n"
  by (auto simp: nested_conns_def)

lemma gv_name: "name init_goodvoxels_bold_mask_wf = ''goodvoxels_bold_mask_wf''"
  by (simp add: init_goodvoxels_bold_mask_wf_def)

lemma conns_nested_none:
  "(\<And>m. n \<noteq> ''goodvoxels_bold_mask_wf.'' @ m) \<Longrightarrow>
   filter (\<lambda>c. dst c = n) (nested_conns init_goodvoxels_bold_mask_wf) = []"
  unfolding filter_empty_conv
proof
  fix c assume a: "(\<And>m. n \<noteq> ''goodvoxels_bold_mask_wf.'' @ m)"
    and c: "c \<in> set (nested_conns init_goodvoxels_bold_mask_wf)"
  from nested_conns_dst[OF c] obtain m where "dst c = ''goodvoxels_bold_mask_wf'' @ ''.'' @ m"
    by (auto simp: gv_name)
  then have "dst c = ''goodvoxels_bold_mask_wf.'' @ m" by simp
  with a show "\<not> dst c = n" by metis
qed

lemma conns_if: "filter P xs = r \<Longrightarrow> filter P (if b then xs else []) = (if b then r else [])"
  by simp

lemma fslr_nodes:
  "map_of (nodes (init_bold_fsLR_resampling_wf tf_get atlases gd eg)) ''initial_roi'' =
     Some (External ''CreateROI'' [''roi_file''], [])"
  "map_of (nodes (init_bold_fsLR_resampling_wf tf_get atlases gd eg)) ''fill_holes'' =
     Some (External ''MetricFillHoles'' [''out_file''], [])"
  "map_of (nodes (init_bold_fsLR_resampling_wf tf_get atlases gd eg)) ''native_roi'' =
     Some (External ''MetricRemoveIslands'' [''out_file''], [])"
  "map_of (nodes (init_bold_fsLR_resampling_wf tf_get atlases gd eg)) ''downsampled_midthickness'' =
     Some (External ''SurfaceResample'' [''surface_out''], [(''method'', StrV ''BARYCENTRIC'')])"
  "map_of (nodes (init_bold_fsLR_resampling_wf tf_get atlases gd eg)) ''volume_to_surface'' =
     Some (External ''VolumeToSurfaceMapping'' [''out_file''], [(''method'', StrV ''ribbon-constrained'')])"
  "map_of (nodes (init_bold_fsLR_resampling_wf tf_get atlases gd eg)) ''metric_dilate'' =
     Some (External ''MetricDilate'' [''out_file''], [(''distance'', IntV 10), (''nearest'', BoolV True)])"
  "map_of (nodes (init_bold_fsLR_resampling_wf tf_get atlases gd eg)) ''mask_native'' =
     Some (External ''MetricMask'' [''out_file''], [])"
  "map_of (nodes (init_bold_fsLR_resampling_wf tf_get atlases gd eg)) ''resample_to_fsLR'' =
     Some (External ''MetricResample'' [''out_file''],
           [(''method'', StrV ''ADAP_BARY_AREA''), (''area_surfs'', BoolV True)])"
  "map_of (nodes (init_bold_fsLR_resampling_wf tf_get atlases gd eg)) ''mask_fsLR'' =
     Some (External ''MetricMask'' [''out_file''], [])"
  unfolding init_bold_fsLR_resampling_wf_def workflow.select_convs append_Cons append_Nil
  by ((rule node_hit, (simp; fail)) | (rule node_miss, (simp; fail)))+

lemma fslr_incoming:
  "incoming (init_bold_fsLR_resampling_wf tf_get atlases gd eg) ''initial_roi'' =
     [C ''itersource'' ''hemi'' ''initial_roi'' ''hemisphere'',
      C ''select_surfaces'' ''thickness'' ''initial_roi'' ''thickness_file''] @ (if eg then [] @ [] else [])"
  "incoming (init_bold_fsLR_resampling_wf tf_get atlases gd eg) ''fill_holes'' =
     [C ''select_surfaces'' ''midthickness'' ''fill_holes'' ''surface_file'',
      C ''initial_roi'' ''roi_file'' ''fill_holes'' ''metric_file''] @ (if eg then [] @ [] else [])"
  "incoming (init_bold_fsLR_resampling_wf tf_get atlases gd eg) ''native_roi'' =
     [C ''select_surfaces'' ''midthickness'' ''native_roi'' ''surface_file'',
      C ''fill_holes'' ''out_file'' ''native_roi'' ''metric_file''] @ (if eg then [] @ [] else [])"
  "incoming (init_bold_fsLR_resampling_wf tf_get atlases gd eg) ''downsampled_midthickness'' =
     [C ''select_surfaces'' ''midthickness'' ''downsampled_midthickness'' ''surface_in'',
      C ''select_surfaces'' ''sphere_reg'' ''downsampled_midthickness'' ''current_sphere'',
      C ''select_surfaces'' ''template_sphere'' ''downsampled_midthickness'' ''new_sphere'']
     @ (if eg then [] @ [] else [])"
  "incoming (init_bold_fsLR_resampling_wf tf_get atlases gd eg) ''volume_to_surface'' =
     [C ''inputnode'' ''bold_file'' ''volume_to_surface'' ''volume_file'',
      C ''select_surfaces'' ''midthickness'' ''volume_to_surface'' ''surface_file'',
      C ''select_surfaces'' ''white'' ''volume_to_surface'' ''inner_surface'',
      C ''select_surfaces'' ''pial'' ''volume_to_surface'' ''outer_surface'']
     @ (if eg then [] @ [C ''goodvoxels_bold_mask_wf.outputnode'' ''goodvoxels_mask''
                           ''volume_to_surface'' ''volume_roi''] else [])"
  "incoming (init_bold_fsLR_resampling_wf tf_get atlases gd eg) ''metric_dilate'' =
     [C ''select_surfaces'' ''midthickness'' ''metric_dilate'' ''surf_file'',
      C ''volume_to_surface'' ''out_file'' ''metric_dilate'' ''in_file''] @ (if eg then [] @ [] else [])"
  "incoming (init_bold_fsLR_resampling_wf tf_get atlases gd eg) ''mask_native'' =
     [C ''native_roi'' ''out_file'' ''mask_native'' ''mask'',
      C ''metric_dilate'' ''out_file'' ''mask_native'' ''in_file''] @ (if eg then [] @ [] else [])"
  "incoming (init_bold_fsLR_resampling_wf tf_get atlases gd eg) ''resample_to_fsLR'' =
     [C ''select_surfaces'' ''sphere_reg'' ''resample_to_fsLR'' ''current_sphere'',
      C ''select_surfaces'' ''template_sphere'' ''resample_to_fsLR'' ''new_sphere'',
      C ''select_surfaces'' ''midthickness'' ''resample_to_fsLR'' ''current_area'',
      C ''downsampled_midthickness'' ''surface_out'' ''resample_to_fsLR'' ''new_area'',
      C ''native_roi'' ''out_file'' ''resample_to_fsLR'' ''roi_metric'',
      C ''mask_native'' ''out_file'' ''resample_to_fsLR'' ''in_file''] @ (if eg then [] @ [] else [])"
  "incoming (init_bold_fsLR_resampling_wf tf_get atlases gd eg) ''mask_fsLR'' =
     [C ''select_surfaces'' ''template_roi'' ''mask_fsLR'' ''mask'',
      C ''resample_to_fsLR'' ''out_file'' ''mask_fsLR'' ''in_file''] @ (if eg then [] @ [] else [])"
  unfolding incoming_def init_bold_fsLR_resampling_wf_def workflow.select_convs
  by ((rule conns_app) | (rule conns_if) | (rule conns_keep, (simp; fail)) | (rule conns_skip, (simp; fail))
      | rule conns_done | (rule conns_nested_none, (simp; fail)))+

lemmas fslr_in = fslr_incoming[simplified]

text \<open>
  Claim C5. For either hemisphere the series projected onto the native surface is dilated
  (distance 10, nearest), then masked by the native ROI (the thickness ROI after hole
  filling and island removal), then resampled with \<^verbatim>\<open>ADAP_BARY_AREA\<close> using the native
  midthickness as current area and the downsampled midthickness as new area, then masked
  by the template ROI.
\<close>

theorem fslr_stage_order:
  fixes ext :: ext
    and hemi bold white pial midthickness thickness sphere_reg template_sphere template_roi goodvoxels :: val
    and eg :: bool
  defines "roi0 \<equiv> ext ''CreateROI'' [(''hemisphere'', hemi), (''thickness_file'', thickness)] ''roi_file''"
  defines "filled \<equiv> ext ''MetricFillHoles''
             [(''surface_file'', midthickness), (''metric_file'', roi0)] ''out_file''"
  defines "roi \<equiv> ext ''MetricRemoveIslands''
             [(''surface_file'', midthickness), (''metric_file'', filled)] ''out_file''"
  defines "downsampled \<equiv> ext ''SurfaceResample''
             [(''surface_in'', midthickness), (''current_sphere'', sphere_reg),
              (''new_sphere'', template_sphere), (''method'', StrV ''BARYCENTRIC'')] ''surface_out''"
  defines "projected \<equiv> ext ''VolumeToSurfaceMapping''
             ([(''volume_file'', bold), (''surface_file'', midthickness), (''inner_surface'', white),
               (''outer_surface'', pial)]
              @ (if eg then [(''volume_roi'', goodvoxels)] else [])
              @ [(''method'', StrV ''ribbon-constrained'')]) ''out_file''"
  defines "dilated \<equiv> ext ''MetricDilate''
             [(''surf_file'', midthickness), (''in_file'', projected),
              (''distance'', IntV 10), (''nearest'', BoolV True)] ''out_file''"
  defines "masked \<equiv> ext ''MetricMask'' [(''mask'', roi), (''in_file'', dilated)] ''out_file''"
  defines "resampled \<equiv> ext ''MetricResample''
             [(''current_sphere'', sphere_reg), (''new_sphere'', template_sphere),
              (''current_area'', midthickness), (''new_area'', downsampled),
              (''roi_metric'', roi), (''in_file'', masked),
              (''method'', StrV ''ADAP_BARY_AREA''), (''area_surfs'', BoolV True)] ''out_file''"
  shows "\<exists>st. exec_nodes ext (init_bold_fsLR_resampling_wf tf_get atlases gd eg) fslr_stages
               (fslr_sources hemi bold white pial midthickness thickness sphere_reg template_sphere
                  template_roi goodvoxels) = Inr st
           \<and> st (''native_roi'', ''out_file'') = Some roi
           \<and> st (''volume_to_surface'', ''out_file'') = Some projected
           \<and> st (''metric_dilate'', ''out_file'') = Some dilated
           \<and> st (''mask_native'', ''out_file'') = Some masked
           \<and> st (''resample_to_fsLR'', ''out_file'') = Some resampled
           \<and> st (''mask_fsLR'', ''out_file'') =
               Some (ext ''MetricMask'' [(''mask'', template_roi), (''in_file'', resampled)] ''out_file'')"
  unfolding assms
  by (cases eg)
     (simp_all add: fslr_stages_def fslr_sources_def exec_node_def node_inputs_def fslr_nodes fslr_in
        read_conn_def)

theorem fslr_stage_order_witness:
  "\<exists>st. exec_nodes (\<lambda>tool ins f. ListV [StrV tool, lookup ins ''in_file''])
           (init_bold_fsLR_resampling_wf (\<lambda>q. [''L.sphere'', ''R.sphere'']) ''atlases'' ''91k'' False)
           fslr_stages
           (fslr_sources (StrV ''L'') (StrV ''bold.nii'') (StrV ''white'') (StrV ''pial'') (StrV ''mid'')
              (StrV ''thickness'') (StrV ''reg'') (StrV ''sphere'') (StrV ''atlasroi'') Undefined) = Inr st
       \<and> st (''mask_fsLR'', ''out_file'') =
           Some (ListV [StrV ''MetricMask'', ListV [StrV ''MetricResample'', ListV [StrV ''MetricMask'',
                   ListV [StrV ''MetricDilate'', ListV [StrV ''VolumeToSurfaceMapping'', Undefined]]]]])"
  using fslr_stage_order[where ext = "\<lambda>tool ins f. ListV [StrV tool, lookup ins ''in_file'']"
      and tf_get = "\<lambda>q. [''L.sphere'', ''R.sphere'']" and atlases = "''atlases''" and gd = "''91k''"
      and eg = False and hemi = "StrV ''L''" and bold = "StrV ''bold.nii''" and white = "StrV ''white''"
      and pial = "StrV ''pial''" and midthickness = "StrV ''mid''" and thickness = "StrV ''thickness''"
      and sphere_reg = "StrV ''reg''" and template_sphere = "StrV ''sphere''"
      and template_roi = "StrV ''atlasroi''" and goodvoxels = Undefined]
  by (simp add: lookup_Cons lookup_Nil) blast

section \<open>Standard-space resampling: fan-out and join\<close>

lemma conns_join_all:
  "d = n \<Longrightarrow> filter (\<lambda>c. dst c = n) (map (\<lambda>f. Conn s f m d f) fs) = map (\<lambda>f. Conn s f m d f) fs"
  by (induction fs) auto

lemma std_join_node:
  "map_of (nodes (init_bold_std_trans_wf gts fs sp me uc)) ''outputnode'' =
     Some (IdentityInterface (output_names fs me), [])"
  by (cases fs; cases me) (simp_all add: init_bold_std_trans_wf_def)

lemma std_join_incoming:
  "incoming (init_bold_std_trans_wf gts fs sp me uc) ''poutputnode'' =
     [Conn ''iterablesource'' ''std_target'' (ExtFn ''format_reference'') ''poutputnode'' ''spatial_reference'',
      C ''merge'' ''out_file'' ''poutputnode'' ''bold_std'',
      C ''gen_final_ref'' ''outputnode.ref_image'' ''poutputnode'' ''bold_std_ref'',
      C ''mask_std_tfm'' ''output_image'' ''poutputnode'' ''bold_mask_std'',
      C ''select_std'' ''key'' ''poutputnode'' ''template'']
     @ (if fs then [C ''aseg_std_tfm'' ''output_image'' ''poutputnode'' ''bold_aseg_std'',
                    C ''aparc_std_tfm'' ''output_image'' ''poutputnode'' ''bold_aparc_std''] else [])
     @ (if me then [C ''t2star_std_tfm'' ''output_image'' ''poutputnode'' ''t2star_std''] else [])
     @ []"
  "incoming (init_bold_std_trans_wf gts fs sp me uc) ''outputnode'' =
     [] @ (if fs then [] else []) @ (if me then [] else [])
     @ map (\<lambda>f. C ''poutputnode'' f ''outputnode'' f) (output_names fs me)"
  unfolding incoming_def init_bold_std_trans_wf_def workflow.select_convs
  by ((rule conns_app) | (rule conns_if) | (rule conns_keep, (simp; fail)) | (rule conns_skip, (simp; fail))
      | rule conns_done | (rule conns_join_none, (simp; fail)) | (rule conns_join_all, (simp; fail)))+

lemmas std_join_in = std_join_incoming[simplified]

lemma std_iterables:
  "iterables (set_inputs n ins (init_bold_std_trans_wf gts fs sp me uc))
     = [(''iterablesource'', ''std_target'', std_vol_references sp)]"
  by (simp add: set_inputs_def init_bold_std_trans_wf_def)

lemma std_order_split:
  "std_order fs me = [''inputnode'', ''iterablesource'', ''split_target'', ''select_std'']
     @ ([''merge_xforms'', ''mask_merge_tfms'', ''select_tpl'', ''gen_ref'', ''mask_std_tfm'',
         ''bold_to_std_transform'', ''threshold'', ''merge'', ''gen_final_ref'']
        @ (if fs then [''aseg_std_tfm'', ''aparc_std_tfm''] else [])
        @ (if me then [''t2star_std_tfm''] else []))
     @ [''poutputnode'']"
  by (simp add: std_order_def)

lemma keyselect_outs:
  "run_KeySelect [f0] ins = Inr outs \<Longrightarrow>
   \<exists>x ks. outs = [(f0, x), (''key'', lookup ins ''key''), (''keys'', ks)]"
  by (auto simp: run_KeySelect_def split: val.splits if_splits option.splits sum.splits)

lemma std_branch_head:
  assumes "exec_nodes ext
             (set_inputs ''iterablesource'' [(''std_target'', TupleV [StrV fn, DictV sd])]
               (set_inputs ''inputnode'' ins (init_bold_std_trans_wf gts fs sp me uc)))
             [''inputnode'', ''iterablesource'', ''split_target'', ''select_std''] Map.empty = Inr st"
  shows "st (''select_std'', ''key'') = Some (StrV fn)
       \<and> st (''iterablesource'', ''std_target'') = Some (TupleV [StrV fn, DictV sd])"
  using assms
  by (auto simp: eval_defs std_nodes std_in run_Function_def split: sum.splits dest!: keyselect_outs)

lemma read_conn_Inr:
  "read_conn ext st c = Inr x \<Longrightarrow>
   \<exists>u v. st (src c, src_field c) = Some u \<and> apply_modifier ext (via c) u = Inr v \<and> x = (dst_field c, v)"
  by (auto simp: read_conn_def split: option.splits sum.splits)

lemma wired_lookup:
  "collect (map (read_conn ext st) cs) = Inr wired \<Longrightarrow> find (\<lambda>c. dst_field c = f) cs = Some c \<Longrightarrow>
   \<exists>u v. st (src c, src_field c) = Some u \<and> apply_modifier ext (via c) u = Inr v
      \<and> lookup (wired @ static) f = v"
proof (induction cs arbitrary: wired)
  case Nil
  then show ?case by simp
next
  case (Cons a cs)
  from Cons.prems(1) obtain x xs where x: "read_conn ext st a = Inr x"
    "collect (map (read_conn ext st) cs) = Inr xs" "wired = x # xs"
    by (auto split: sum.splits)
  from read_conn_Inr[OF x(1)] obtain u v where uv: "st (src a, src_field a) = Some u"
    "apply_modifier ext (via a) u = Inr v" "x = (dst_field a, v)"
    by blast
  show ?case
  proof (cases "dst_field a = f")
    case True
    with Cons.prems(2) have "c = a" by simp
    with True uv x(3) show ?thesis by (simp add: lookup_Cons)
  next
    case False
    with Cons.prems(2) have "find (\<lambda>c. dst_field c = f) cs = Some c" by simp
    from Cons.IH[OF x(2) this] False uv x(3) show ?thesis by (simp add: lookup_Cons)
  qed
qed

lemma map_of_map_names: "g \<in> set names \<Longrightarrow> map_of (map (\<lambda>f. (f, h f)) names) g = Some (h g)"
  by (induction names) auto

lemma exec_identity_output:
  assumes "exec_node ext w n st = Inr st'"
    and "map_of (nodes w) n = Some (IdentityInterface flds, static)"
    and "g \<in> set flds"
    and "find (\<lambda>c. dst_field c = g) (incoming w n) = Some c"
  shows "\<exists>u v. st (src c, src_field c) = Some u \<and> apply_modifier ext (via c) u = Inr v
           \<and> st' (n, g) = Some v"
proof -
  from assms(1,2) obtain wired where w: "collect (map (read_conn ext st) (incoming w n)) = Inr wired"
    "st' = record_outputs n (map (\<lambda>f. (f, lookup (wired @ static) f)) flds) st"
    by (auto simp: exec_node_def node_inputs_def split: sum.splits)
  from wired_lookup[OF w(1) assms(4), of static] obtain u v where
    uv: "st (src c, src_field c) = Some u" "apply_modifier ext (via c) u = Inr v"
      "lookup (wired @ static) g = v"
    by blast
  have "st' (n, g) = Some (lookup (wired @ static) g)"
    unfolding w(2) by (rule record_outputs_lookup) (rule map_of_map_names[OF assms(3)])
  with uv show ?thesis by blast
qed

lemma std_branch_tail:
  assumes "exec_node ext
             (set_inputs ''iterablesource'' its
               (set_inputs ''inputnode'' ins (init_bold_std_trans_wf gts fs sp me uc)))
             ''poutputnode'' st2 = Inr st"
    and "st2 (''select_std'', ''key'') = Some k"
    and "st2 (''iterablesource'', ''std_target'') = Some t"
  shows "st (''poutputnode'', ''template'') = Some k
       \<and> st (''poutputnode'', ''spatial_reference'') = Some (ext ''format_reference'' [(''arg'', t)] ''out'')"
proof -
  let ?w = "set_inputs ''iterablesource'' its
               (set_inputs ''inputnode'' ins (init_bold_std_trans_wf gts fs sp me uc))"
  have node: "map_of (nodes ?w) ''poutputnode'' = Some (IdentityInterface (output_names fs me), [])"
    by (simp add: map_of_set_inputs std_nodes)
  have f1: "find (\<lambda>c. dst_field c = ''template'') (incoming ?w ''poutputnode'')
              = Some (C ''select_std'' ''key'' ''poutputnode'' ''template'')"
    by (simp add: incoming_set_inputs std_join_in)
  have f2: "find (\<lambda>c. dst_field c = ''spatial_reference'') (incoming ?w ''poutputnode'')
              = Some (Conn ''iterablesource'' ''std_target'' (ExtFn ''format_reference'')
                        ''poutputnode'' ''spatial_reference'')"
    by (simp add: incoming_set_inputs std_join_in)
  have m1: "''template'' \<in> set (output_names fs me)" and m2: "''spatial_reference'' \<in> set (output_names fs me)"
    by (simp_all add: output_names_def)
  from exec_identity_output[OF assms(1) node m1 f1] assms(2)
  have a: "st (''poutputnode'', ''template'') = Some k" by auto
  from exec_identity_output[OF assms(1) node m2 f2] assms(3)
  have b: "st (''poutputnode'', ''spatial_reference'') = Some (ext ''format_reference'' [(''arg'', t)] ''out'')"
    by auto
  from a b show ?thesis by simp
qed

lemma exec_nodes_append_Inr:
  "exec_nodes ext w (xs @ ys) st = Inr st' \<Longrightarrow>
   \<exists>st1. exec_nodes ext w xs st = Inr st1 \<and> exec_nodes ext w ys st1 = Inr st'"
  by (simp add: exec_nodes_append split: sum.splits)

lemma exec_nodes_single: "exec_nodes ext w [n] st = Inr st' \<Longrightarrow> exec_node ext w n st = Inr st'"
  by (simp split: sum.splits)

lemma std_branch_outputs:
  assumes "run_branch ext (set_inputs ''inputnode'' ins (init_bold_std_trans_wf gts fs sp me uc))
             (std_order fs me) (TupleV [StrV fn, DictV sd]) = Inr st"
  shows "st (''poutputnode'', ''template'') = Some (StrV fn)
       \<and> st (''poutputnode'', ''spatial_reference'') =
           Some (ext ''format_reference'' [(''arg'', TupleV [StrV fn, DictV sd])] ''out'')"
proof -
  define w where "w = set_inputs ''iterablesource'' [(''std_target'', TupleV [StrV fn, DictV sd])]
              (set_inputs ''inputnode'' ins (init_bold_std_trans_wf gts fs sp me uc))"
  define mid where "mid = [''merge_xforms'', ''mask_merge_tfms'', ''select_tpl'', ''gen_ref'', ''mask_std_tfm'',
         ''bold_to_std_transform'', ''threshold'', ''merge'', ''gen_final_ref'']
        @ (if fs then [''aseg_std_tfm'', ''aparc_std_tfm''] else [])
        @ (if me then [''t2star_std_tfm''] else [])"
  have ord: "std_order fs me
      = [''inputnode'', ''iterablesource'', ''split_target'', ''select_std''] @ mid @ [''poutputnode'']"
    unfolding mid_def by (rule std_order_split)
  from assms have run: "exec_nodes ext w (std_order fs me) Map.empty = Inr st"
    by (simp add: run_branch_def std_iterables w_def)
  from exec_nodes_append_Inr[OF run[unfolded ord]] obtain st1 where
    s1: "exec_nodes ext w [''inputnode'', ''iterablesource'', ''split_target'', ''select_std''] Map.empty
           = Inr st1"
    and r1: "exec_nodes ext w (mid @ [''poutputnode'']) st1 = Inr st"
    by blast
  from exec_nodes_append_Inr[OF r1] obtain st2 where
    s2: "exec_nodes ext w mid st1 = Inr st2"
    and r2: "exec_nodes ext w [''poutputnode''] st2 = Inr st"
    by blast
  from exec_nodes_single[OF r2] have s3: "exec_node ext w ''poutputnode'' st2 = Inr st" .
  have n1: "''select_std'' \<notin> set mid" and n2: "''iterablesource'' \<notin> set mid"
    unfolding mid_def by auto
  from std_branch_head[OF s1[unfolded w_def]] exec_nodes_frame[OF s2 n1] exec_nodes_frame[OF s2 n2]
  have "st2 (''select_std'', ''key'') = Some (StrV fn)"
    "st2 (''iterablesource'', ''std_target'') = Some (TupleV [StrV fn, DictV sd])"
    by simp_all
  from std_branch_tail[OF s3[unfolded w_def] this] show ?thesis .
qed

lemma std_join_fields:
  assumes sched: "set sched = {..<length (std_vol_references sp)}"
    and run: "run_join ext (set_inputs ''inputnode'' ins (init_bold_std_trans_wf gts fs sp me uc))
                (std_order fs me) sched ''outputnode'' = Inr outs"
    and f: "f \<in> set (output_names fs me)"
  shows "\<exists>xs. lookup outs f = ListV xs \<and> length xs = length (std_vol_references sp)
           \<and> (\<forall>i<length (std_vol_references sp).
                 \<exists>st. run_branch ext (set_inputs ''inputnode'' ins (init_bold_std_trans_wf gts fs sp me uc))
                        (std_order fs me) (std_vol_references sp ! i) = Inr st
                    \<and> st (''poutputnode'', f) = Some (xs ! i))"
proof -
  define w where "w = set_inputs ''inputnode'' ins (init_bold_std_trans_wf gts fs sp me uc)"
  define refs where "refs = std_vol_references sp"
  define branch where "branch = (\<lambda>i. if i < length refs then run_branch ext w (std_order fs me) (refs ! i)
                                      else Inl IndexError)"
  have it: "iterables w = [(''iterablesource'', ''std_target'', refs)]"
    unfolding w_def refs_def by (rule std_iterables)
  have node: "map_of (nodes w) ''outputnode'' = Some (IdentityInterface (output_names fs me), [])"
    unfolding w_def by (simp add: map_of_set_inputs std_join_node)
  have inc: "incoming w ''outputnode'' = map (\<lambda>f. C ''poutputnode'' f ''outputnode'' f) (output_names fs me)"
    unfolding w_def by (simp add: incoming_set_inputs std_join_in)
  from run obtain slots wired where
    slots: "complete branch sched Map.empty = Inr slots"
    and wired: "collect (map (\<lambda>f. join_field ext slots (length refs) (C ''poutputnode'' f ''outputnode'' f))
                  (output_names fs me)) = Inr wired"
    and outs: "outs = map (\<lambda>f. (f, lookup wired f)) (output_names fs me)"
    unfolding w_def[symmetric] run_join_def it branch_def
    by (auto simp: node inc o_def split: sum.splits simp del: map_eq_conv)
  from join_fields_lookup[OF wired f] obtain vs where
    vs: "lookup wired f = ListV vs" "length vs = length refs"
      "\<forall>i<length refs. read_slot ext slots (C ''poutputnode'' f ''outputnode'' f) i = Inr (vs ! i)"
    by blast
  have lo: "lookup outs f = ListV vs"
    unfolding outs using lookup_map_names[OF f, of "lookup wired"] vs(1) by simp
  have "\<forall>i<length refs. \<exists>st. run_branch ext w (std_order fs me) (refs ! i) = Inr st
            \<and> st (''poutputnode'', f) = Some (vs ! i)"
  proof (intro allI impI)
    fix i assume i: "i < length refs"
    with vs(3) have "read_slot ext slots (C ''poutputnode'' f ''outputnode'' f) i = Inr (vs ! i)"
      by simp
    from read_slot_Direct[OF this] obtain st where st: "slots i = Some st"
      "st (''poutputnode'', f) = Some (vs ! i)"
      by blast
    from i sched have "i \<in> set sched" by (simp add: refs_def)
    with complete_Inr[OF slots] obtain st' where "branch i = Inr st'" "slots i = Some st'"
      by blast
    with st i have "run_branch ext w (std_order fs me) (refs ! i) = Inr st"
      by (simp add: branch_def)
    with st(2) show "\<exists>st. run_branch ext w (std_order fs me) (refs ! i) = Inr st
            \<and> st (''poutputnode'', f) = Some (vs ! i)"
      by blast
  qed
  with lo vs(2) show ?thesis unfolding w_def refs_def by blast
qed

lemma collect_succeeds:
  "(\<And>x. x \<in> set xs \<Longrightarrow> \<exists>v. g x = Inr v) \<Longrightarrow> \<exists>ys. collect (map g xs) = Inr ys"
proof (induction xs)
  case Nil
  then show ?case by simp
next
  case (Cons a xs)
  from Cons.prems[of a] obtain v where v: "g a = Inr v" by auto
  from Cons.IH Cons.prems obtain ys where "collect (map g xs) = Inr ys" by auto
  with v show ?case by simp
qed

lemma complete_succeeds:
  "(\<And>i. i \<in> set sched \<Longrightarrow> \<exists>st. branch i = Inr st) \<Longrightarrow> \<exists>slots'. complete branch sched slots = Inr slots'"
proof (induction sched arbitrary: slots)
  case Nil
  then show ?case by simp
next
  case (Cons j sched)
  from Cons.prems[of j] obtain st where st: "branch j = Inr st" by auto
  have "\<And>i. i \<in> set sched \<Longrightarrow> \<exists>st. branch i = Inr st"
    using Cons.prems by simp
  from Cons.IH[of "slots(j \<mapsto> st)", OF this] obtain slots' where
    "complete branch sched (slots(j \<mapsto> st)) = Inr slots'" by blast
  with st show ?case by simp
qed

lemma run_join_succeeds:
  assumes it: "iterables w = [(s, fld, vals)]"
    and node: "map_of (nodes w) j = Some (IdentityInterface names, [])"
    and inc: "incoming w j = map (\<lambda>f. C p f j f) names"
    and sched: "set sched = {..<length vals}"
    and branches: "\<And>i. i < length vals \<Longrightarrow>
        \<exists>st. run_branch ext w order (vals ! i) = Inr st \<and> (\<forall>f\<in>set names. \<exists>v. st (p, f) = Some v)"
  shows "\<exists>outs. run_join ext w order sched j = Inr outs"
proof -
  define branch where "branch = (\<lambda>i. if i < length vals then run_branch ext w order (vals ! i)
                                      else Inl IndexError)"
  have "\<And>i. i \<in> set sched \<Longrightarrow> \<exists>st. branch i = Inr st"
  proof -
    fix i assume "i \<in> set sched"
    with sched have i: "i < length vals" by simp
    from branches[OF i] obtain st where "run_branch ext w order (vals ! i) = Inr st" by blast
    with i show "\<exists>st. branch i = Inr st" by (simp add: branch_def)
  qed
  from complete_succeeds[of sched branch Map.empty, OF this] obtain slots where
    slots: "complete branch sched Map.empty = Inr slots" by blast
  have "\<And>c. c \<in> set (incoming w j) \<Longrightarrow> \<exists>v. join_field ext slots (length vals) c = Inr v"
  proof -
    fix c assume "c \<in> set (incoming w j)"
    then obtain f where f: "f \<in> set names" "c = C p f j f" by (auto simp: inc)
    have "\<And>i. i \<in> set [0..<length vals] \<Longrightarrow> \<exists>v. read_slot ext slots c i = Inr v"
    proof -
      fix i assume "i \<in> set [0..<length vals]"
      then have i: "i < length vals" by simp
      with sched have "i \<in> set sched" by simp
      with complete_Inr[OF slots] obtain st where st: "branch i = Inr st" "slots i = Some st"
        by blast
      from branches[OF i] st(1) i f(1) obtain v where "st (p, f) = Some v"
        by (auto simp: branch_def)
      with st(2) f(2) show "\<exists>v. read_slot ext slots c i = Inr v"
        by (simp add: read_slot_def read_conn_def)
    qed
    from collect_succeeds[of "[0..<length vals]" "read_slot ext slots c", OF this]
    show "\<exists>v. join_field ext slots (length vals) c = Inr v"
      by (auto simp: join_field_def)
  qed
  from collect_succeeds[of "incoming w j" "join_field ext slots (length vals)", OF this]
  obtain wired where "collect (map (join_field ext slots (length vals)) (incoming w j)) = Inr wired"
    by blast
  with slots show ?thesis
    unfolding run_join_def it branch_def by (simp add: node)
qed


lemma std_nodes_aux:
  "map_of (nodes (init_bold_std_trans_wf gts fs sp me uc)) ''select_tpl'' =
     Some (Function [''template''] [''out''] (select_template gts), [])"
  "map_of (nodes (init_bold_std_trans_wf gts fs sp me uc)) ''gen_ref'' =
     Some (External ''GenerateSamplingReference'' [''out_file''], [])"
  "map_of (nodes (init_bold_std_trans_wf gts fs sp me uc)) ''mask_std_tfm'' =
     Some (External ''ApplyTransforms'' [''output_image''], [(''interpolation'', StrV ''MultiLabel'')])"
  "map_of (nodes (init_bold_std_trans_wf gts fs sp me uc)) ''mask_merge_tfms'' = Some (Merge 2, [])"
  "map_of (nodes (init_bold_std_trans_wf gts fs sp me uc)) ''gen_final_ref'' =
     Some (External ''init_bold_reference_wf'' [''outputnode.ref_image''], [(''pre_mask'', BoolV True)])"
  unfolding init_bold_std_trans_wf_def workflow.select_convs append_Cons append_Nil
  by ((rule node_hit, (simp; fail)) | (rule node_miss, (simp; fail)))+

lemma std_incoming_aux:
  "incoming (init_bold_std_trans_wf gts fs sp me uc) ''select_tpl'' =
     [C ''iterablesource'' ''std_target'' ''select_tpl'' ''template''] @ [] @ [] @ []"
  "incoming (init_bold_std_trans_wf gts fs sp me uc) ''gen_ref'' =
     [Conn ''inputnode'' ''bold_split'' (PyFn first) ''gen_ref'' ''moving_image'',
      Conn ''split_target'' ''spec'' (PyFn is_native) ''gen_ref'' ''keep_native'',
      C ''select_tpl'' ''out'' ''gen_ref'' ''fixed_image''] @ [] @ [] @ []"
  "incoming (init_bold_std_trans_wf gts fs sp me uc) ''mask_std_tfm'' =
     [C ''inputnode'' ''bold_mask'' ''mask_std_tfm'' ''input_image'',
      C ''gen_ref'' ''out_file'' ''mask_std_tfm'' ''reference_image'',
      C ''mask_merge_tfms'' ''out'' ''mask_std_tfm'' ''transforms''] @ [] @ [] @ []"
  "incoming (init_bold_std_trans_wf gts fs sp me uc) ''mask_merge_tfms'' =
     [Conn ''inputnode'' ''itk_bold_to_t1'' (PyFn aslist) ''mask_merge_tfms'' ''in2'',
      C ''select_std'' ''anat2std_xfm'' ''mask_merge_tfms'' ''in1''] @ [] @ [] @ []"
  "incoming (init_bold_std_trans_wf gts fs sp me uc) ''gen_final_ref'' =
     [C ''mask_std_tfm'' ''output_image'' ''gen_final_ref'' ''inputnode.bold_mask'',
      C ''merge'' ''out_file'' ''gen_final_ref'' ''inputnode.bold_file''] @ [] @ [] @ []"
  unfolding incoming_def init_bold_std_trans_wf_def workflow.select_convs
  by ((rule conns_app) | (rule conns_keep, (simp; fail)) | (rule conns_skip, (simp; fail))
      | rule conns_done | (rule conns_opt_none, (auto; fail)) | (rule conns_join_none, (simp; fail)))+

lemmas std_in_aux = std_incoming_aux[simplified]

lemma std_branch_example:
  assumes "t = (''MNI152Lin'', []) \<or> t = (''MNI152NLin6Asym'', [(''res'', IntV 2)])"
  shows "\<exists>st. run_branch (\<lambda>tool ins f. if tool = ''MultiApplyTransforms'' then ListV [Image [1, - 1]] else StrV tool)
           (set_inputs ''inputnode''
              [(''anat2std_xfm'', ListV [StrV ''anat2lin.h5'', StrV ''anat2nlin6.h5'']),
               (''templates'', ListV [StrV ''MNI152Lin'', StrV ''MNI152NLin6Asym'']),
               (''bold_split'', ListV [StrV ''vol0.nii'', StrV ''vol1.nii''])]
              (init_bold_std_trans_wf (available [1, 2]) False sp False True))
           (std_order False False) (TupleV [StrV (fst t), DictV (snd t)]) = Inr st
         \<and> (\<forall>f\<in>set (output_names False False). \<exists>v. st (''poutputnode'', f) = Some v)"
  using assms
  by (auto simp: run_branch_def std_iterables std_order_def output_names_def eval_defs std_nodes std_in
      std_nodes_aux std_in_aux std_join_in run_Function_def run_KeySelect_def aslist_Inr first_def
      run_Clip_def o_def split_colon_def sanitize_def dict_get_def available_def first_of_def)

text \<open>
  Claim C1. When the join of the standard-space resampler produces its outputs, each of
  the lists \<^verbatim>\<open>bold_std\<close>, \<^verbatim>\<open>bold_std_ref\<close>, \<^verbatim>\<open>bold_mask_std\<close>, \<^verbatim>\<open>spatial_reference\<close> and
  \<^verbatim>\<open>template\<close> has one element per requested standard volumetric space, and its \<open>i\<close>-th
  element is the output of the branch run for the \<open>i\<close>-th requested space, whatever the
  order \<open>sched\<close> in which the branches complete; in particular \<^verbatim>\<open>template\<close> lists the
  requested names in request order.
\<close>

theorem std_join_correspondence:
  assumes sched: "set sched = {..<length (std_vol_references sp)}"
    and run: "run_join ext (set_inputs ''inputnode'' ins (init_bold_std_trans_wf gts fs sp me uc))
                (std_order fs me) sched ''outputnode'' = Inr outs"
  shows "(\<forall>f\<in>set [''bold_std'', ''bold_std_ref'', ''bold_mask_std'', ''spatial_reference'', ''template''].
            \<exists>xs. lookup outs f = ListV xs \<and> length xs = length (std_vol_references sp)
              \<and> (\<forall>i<length (std_vol_references sp).
                    \<exists>st. run_branch ext
                           (set_inputs ''inputnode'' ins (init_bold_std_trans_wf gts fs sp me uc))
                           (std_order fs me) (std_vol_references sp ! i) = Inr st
                       \<and> st (''poutputnode'', f) = Some (xs ! i)))
       \<and> lookup outs ''template'' =
           ListV (map (\<lambda>s. StrV (fullname s)) (filter (\<lambda>s. standard s \<and> dim s = 3) (references sp)))
       \<and> lookup outs ''spatial_reference'' =
           ListV (map (\<lambda>r. ext ''format_reference'' [(''arg'', r)] ''out'') (std_vol_references sp))"
proof (intro conjI ballI)
  fix f assume "f \<in> set [''bold_std'', ''bold_std_ref'', ''bold_mask_std'', ''spatial_reference'', ''template'']"
  then have "f \<in> set (output_names fs me)"
    by (auto simp: output_names_def)
  from std_join_fields[OF sched run this]
  show "\<exists>xs. lookup outs f = ListV xs \<and> length xs = length (std_vol_references sp)
              \<and> (\<forall>i<length (std_vol_references sp).
                    \<exists>st. run_branch ext
                           (set_inputs ''inputnode'' ins (init_bold_std_trans_wf gts fs sp me uc))
                           (std_order fs me) (std_vol_references sp ! i) = Inr st
                       \<and> st (''poutputnode'', f) = Some (xs ! i))" .
next
  define flt where "flt = filter (\<lambda>s. standard s \<and> dim s = 3) (references sp)"
  have refs: "std_vol_references sp = map (\<lambda>s. TupleV [StrV (fullname s), DictV (spec s)]) flt"
    by (simp add: std_vol_references_def flt_def)
  have "''template'' \<in> set (output_names fs me)" by (simp add: output_names_def)
  from std_join_fields[OF sched run this] obtain xs where
    xs: "lookup outs ''template'' = ListV xs" "length xs = length (std_vol_references sp)"
      "\<forall>i<length (std_vol_references sp).
          \<exists>st. run_branch ext (set_inputs ''inputnode'' ins (init_bold_std_trans_wf gts fs sp me uc))
                 (std_order fs me) (std_vol_references sp ! i) = Inr st
             \<and> st (''poutputnode'', ''template'') = Some (xs ! i)"
    by blast
  have "xs = map (\<lambda>s. StrV (fullname s)) flt"
  proof (rule nth_equalityI)
    show "length xs = length (map (\<lambda>s. StrV (fullname s)) flt)"
      using xs(2) by (simp add: refs)
  next
    fix i assume "i < length xs"
    then have i: "i < length flt" using xs(2) by (simp add: refs)
    then have r: "std_vol_references sp ! i = TupleV [StrV (fullname (flt ! i)), DictV (spec (flt ! i))]"
      by (simp add: refs)
    from xs(3) i obtain st where
      st: "run_branch ext (set_inputs ''inputnode'' ins (init_bold_std_trans_wf gts fs sp me uc))
                 (std_order fs me) (std_vol_references sp ! i) = Inr st"
        "st (''poutputnode'', ''template'') = Some (xs ! i)"
      by (auto simp: refs)
    from std_branch_outputs[OF st(1)[unfolded r]] st(2) i
    show "xs ! i = map (\<lambda>s. StrV (fullname s)) flt ! i" by simp
  qed
  with xs(1) show "lookup outs ''template'' =
           ListV (map (\<lambda>s. StrV (fullname s)) (filter (\<lambda>s. standard s \<and> dim s = 3) (references sp)))"
    by (simp add: flt_def)
next
  define flt where "flt = filter (\<lambda>s. standard s \<and> dim s = 3) (references sp)"
  have refs: "std_vol_references sp = map (\<lambda>s. TupleV [StrV (fullname s), DictV (spec s)]) flt"
    by (simp add: std_vol_references_def flt_def)
  have "''spatial_reference'' \<in> set (output_names fs me)" by (simp add: output_names_def)
  from std_join_fields[OF sched run this] obtain xs where
    xs: "lookup outs ''spatial_reference'' = ListV xs" "length xs = length (std_vol_references sp)"
      "\<forall>i<length (std_vol_references sp).
          \<exists>st. run_branch ext (set_inputs ''inputnode'' ins (init_bold_std_trans_wf gts fs sp me uc))
                 (std_order fs me) (std_vol_references sp ! i) = Inr st
             \<and> st (''poutputnode'', ''spatial_reference'') = Some (xs ! i)"
    by blast
  have "xs = map (\<lambda>r. ext ''format_reference'' [(''arg'', r)] ''out'') (std_vol_references sp)"
  proof (rule nth_equalityI)
    show "length xs = length (map (\<lambda>r. ext ''format_reference'' [(''arg'', r)] ''out'') (std_vol_references sp))"
      using xs(2) by simp
  next
    fix i assume "i < length xs"
    then have i: "i < length flt" using xs(2) by (simp add: refs)
    then have r: "std_vol_references sp ! i = TupleV [StrV (fullname (flt ! i)), DictV (spec (flt ! i))]"
      by (simp add: refs)
    from xs(3) i obtain st where
      st: "run_branch ext (set_inputs ''inputnode'' ins (init_bold_std_trans_wf gts fs sp me uc))
                 (std_order fs me) (std_vol_references sp ! i) = Inr st"
        "st (''poutputnode'', ''spatial_reference'') = Some (xs ! i)"
      by (auto simp: refs)
    from std_branch_outputs[OF st(1)[unfolded r]] st(2) i r
    show "xs ! i = map (\<lambda>r. ext ''format_reference'' [(''arg'', r)] ''out'') (std_vol_references sp) ! i"
      by (simp add: refs)
  qed
  with xs(1) show "lookup outs ''spatial_reference'' =
           ListV (map (\<lambda>r. ext ''format_reference'' [(''arg'', r)] ''out'') (std_vol_references sp))"
    by simp
qed

theorem std_join_correspondence_witness:
  "set [1, 0] = {..<length (std_vol_references
       \<lparr>cached_spaces = [''MNI152Lin'', ''MNI152NLin6Asym''],
        references = [\<lparr>fullname = ''MNI152Lin'', spec = [], standard = True, dim = 3\<rparr>,
                      \<lparr>fullname = ''fsaverage'', spec = [(''den'', StrV ''10k'')], standard = True, dim = 2\<rparr>,
                      \<lparr>fullname = ''MNI152NLin6Asym'', spec = [(''res'', IntV 2)], standard = True, dim = 3\<rparr>]\<rparr>)}
   \<and> (\<exists>outs. run_join (\<lambda>tool ins f. if tool = ''MultiApplyTransforms'' then ListV [Image [1, - 1]] else StrV tool)
           (set_inputs ''inputnode''
              [(''anat2std_xfm'', ListV [StrV ''anat2lin.h5'', StrV ''anat2nlin6.h5'']),
               (''templates'', ListV [StrV ''MNI152Lin'', StrV ''MNI152NLin6Asym'']),
               (''bold_split'', ListV [StrV ''vol0.nii'', StrV ''vol1.nii''])]
              (init_bold_std_trans_wf (available [1, 2]) False
                 \<lparr>cached_spaces = [''MNI152Lin'', ''MNI152NLin6Asym''],
                  references = [\<lparr>fullname = ''MNI152Lin'', spec = [], standard = True, dim = 3\<rparr>,
                      \<lparr>fullname = ''fsaverage'', spec = [(''den'', StrV ''10k'')], standard = True, dim = 2\<rparr>,
                      \<lparr>fullname = ''MNI152NLin6Asym'', spec = [(''res'', IntV 2)], standard = True, dim = 3\<rparr>]\<rparr>
                 False True))
           (std_order False False) [1, 0] ''outputnode'' = Inr outs
        \<and> lookup outs ''template'' = ListV [StrV ''MNI152Lin'', StrV ''MNI152NLin6Asym''])"
proof -
  define sp where "sp = \<lparr>cached_spaces = [''MNI152Lin'', ''MNI152NLin6Asym''],
        references = [\<lparr>fullname = ''MNI152Lin'', spec = [], standard = True, dim = 3\<rparr>,
                      \<lparr>fullname = ''fsaverage'', spec = [(''den'', StrV ''10k'')], standard = True, dim = 2\<rparr>,
                      \<lparr>fullname = ''MNI152NLin6Asym'', spec = [(''res'', IntV 2)], standard = True, dim = 3\<rparr>]\<rparr>"
  define ext :: ext where
    "ext = (\<lambda>tool ins f. if tool = ''MultiApplyTransforms'' then ListV [Image [1, - 1]] else StrV tool)"
  define w where "w = set_inputs ''inputnode''
              [(''anat2std_xfm'', ListV [StrV ''anat2lin.h5'', StrV ''anat2nlin6.h5'']),
               (''templates'', ListV [StrV ''MNI152Lin'', StrV ''MNI152NLin6Asym'']),
               (''bold_split'', ListV [StrV ''vol0.nii'', StrV ''vol1.nii''])]
              (init_bold_std_trans_wf (available [1, 2]) False sp False True)"
  have refs: "std_vol_references sp = [TupleV [StrV ''MNI152Lin'', DictV []],
                                       TupleV [StrV ''MNI152NLin6Asym'', DictV [(''res'', IntV 2)]]]"
    by (simp add: std_vol_references_def sp_def)
  have sched: "set [1, 0] = {..<length (std_vol_references sp)}"
    unfolding refs by auto
  have it: "iterables w = [(''iterablesource'', ''std_target'', std_vol_references sp)]"
    unfolding w_def by (rule std_iterables)
  have node: "map_of (nodes w) ''outputnode'' = Some (IdentityInterface (output_names False False), [])"
    unfolding w_def by (simp add: map_of_set_inputs std_join_node)
  have inc: "incoming w ''outputnode''
      = map (\<lambda>f. C ''poutputnode'' f ''outputnode'' f) (output_names False False)"
    unfolding w_def by (simp add: incoming_set_inputs std_join_in)
  have branches: "\<exists>st. run_branch ext w (std_order False False) (std_vol_references sp ! i) = Inr st
        \<and> (\<forall>f\<in>set (output_names False False). \<exists>v. st (''poutputnode'', f) = Some v)"
    if "i < length (std_vol_references sp)" for i
  proof -
    from that have "i = 0 \<or> i = 1" unfolding refs by auto
    then show ?thesis
    proof
      assume "i = 0"
      with std_branch_example[of "(''MNI152Lin'', [])" sp] show ?thesis
        unfolding w_def ext_def refs by simp
    next
      assume "i = 1"
      with std_branch_example[of "(''MNI152NLin6Asym'', [(''res'', IntV 2)])" sp] show ?thesis
        unfolding w_def ext_def refs by simp
    qed
  qed
  from run_join_succeeds[OF it node inc sched branches] obtain outs where
    run: "run_join ext w (std_order False False) [1, 0] ''outputnode'' = Inr outs"
    by blast
  from std_join_correspondence[OF sched run[unfolded w_def]]
  have "lookup outs ''template'' = ListV [StrV ''MNI152Lin'', StrV ''MNI152NLin6Asym'']"
    by (simp add: sp_def)
  with sched run show ?thesis
    unfolding w_def ext_def sp_def by blast
qed

end
